theory Spec2Isabelle
  imports Main
begin

section \<open>Text helpers\<close>

text \<open>
  Text is a list of bytes, the UTF-8 encoding of Python's \<open>str\<close>. \<open>str.strip()\<close> removes
  the white space of \<open>str.isspace\<close> from both ends: the code points 9 to 13, 28 to 32,
  U+0085, U+00A0, U+1680, U+2000 to U+200A, U+2028, U+2029, U+202F, U+205F and U+3000,
  here as their byte sequences. \<open>str.lower()\<close> is modelled on ASCII: only \<open>A\<close> to \<open>Z\<close>
  change. No code point outside ASCII lowers to a letter of \<open>income\<close> or \<open>expense\<close>, so
  the direction test of the normalizers is the source's.
\<close>

definition WHITESPACE :: "string list" where
  "WHITESPACE =
     [[CHR 0x09], [CHR 0x0A], [CHR 0x0B], [CHR 0x0C], [CHR 0x0D],
      [CHR 0x1C], [CHR 0x1D], [CHR 0x1E], [CHR 0x1F], [CHR 0x20],
      [CHR 0xC2, CHR 0x85], [CHR 0xC2, CHR 0xA0], [CHR 0xE1, CHR 0x9A, CHR 0x80],
      [CHR 0xE2, CHR 0x80, CHR 0x80], [CHR 0xE2, CHR 0x80, CHR 0x81], [CHR 0xE2, CHR 0x80, CHR 0x82],
      [CHR 0xE2, CHR 0x80, CHR 0x83], [CHR 0xE2, CHR 0x80, CHR 0x84], [CHR 0xE2, CHR 0x80, CHR 0x85],
      [CHR 0xE2, CHR 0x80, CHR 0x86], [CHR 0xE2, CHR 0x80, CHR 0x87], [CHR 0xE2, CHR 0x80, CHR 0x88],
      [CHR 0xE2, CHR 0x80, CHR 0x89], [CHR 0xE2, CHR 0x80, CHR 0x8A], [CHR 0xE2, CHR 0x80, CHR 0xA8],
      [CHR 0xE2, CHR 0x80, CHR 0xA9], [CHR 0xE2, CHR 0x80, CHR 0xAF], [CHR 0xE2, CHR 0x81, CHR 0x9F],
      [CHR 0xE3, CHR 0x80, CHR 0x80]]"

text \<open>
  \<open>drop_spaces seqs n s\<close> removes at most \<open>n\<close> leading sequences of \<open>seqs\<close> from \<open>s\<close>;
  every sequence has a byte, so \<open>length s\<close> turns remove them all.
\<close>

fun drop_spaces :: "string list \<Rightarrow> nat \<Rightarrow> string \<Rightarrow> string" where
  "drop_spaces seqs 0 s = s"
| "drop_spaces seqs (Suc n) s =
     (case find (\<lambda>p. take (length p) s = p) seqs of
        None \<Rightarrow> s
      | Some p \<Rightarrow> drop_spaces seqs n (drop (length p) s))"

definition lstrip :: "string \<Rightarrow> string" where
  "lstrip s = drop_spaces WHITESPACE (length s) s"

definition rstrip :: "string \<Rightarrow> string" where
  "rstrip s = rev (drop_spaces (map rev WHITESPACE) (length s) (rev s))"

definition strip :: "string \<Rightarrow> string" where
  "strip s = rstrip (lstrip s)"

definition lower_char :: "char \<Rightarrow> char" where
  "lower_char c = (let n = (of_char c :: nat) in if 65 \<le> n \<and> n \<le> 90 then char_of (n + 32) else c)"

definition lower :: "string \<Rightarrow> string" where
  "lower s = map lower_char s"

text \<open>\<open>value or default\<close> on an optional cell: \<open>None\<close> and the empty text are falsy.\<close>

definition or_else :: "string option \<Rightarrow> string \<Rightarrow> string" where
  "or_else v d = (case v of None \<Rightarrow> d | Some s \<Rightarrow> if s = [] then d else s)"

definition str_or :: "string \<Rightarrow> string \<Rightarrow> string" where
  "str_or s d = (if s = [] then d else s)"

text \<open>\<open>str(n)\<close> for an integer: decimal digits, a minus sign when negative.\<close>

definition digit_char :: "nat \<Rightarrow> char" where
  "digit_char d = char_of (48 + d)"

fun str_nat :: "nat \<Rightarrow> string" where
  "str_nat n = (if n < 10 then [digit_char n] else str_nat (n div 10) @ [digit_char (n mod 10)])"

definition str_int :: "int \<Rightarrow> string" where
  "str_int i = (if i < 0 then CHR ''-'' # str_nat (nat (- i)) else str_nat (nat i))"

text \<open>\<open>sep.join(parts)\<close>.\<close>

fun join :: "string \<Rightarrow> string list \<Rightarrow> string" where
  "join sep [] = []"
| "join sep [x] = x"
| "join sep (x # y # ys) = x @ sep @ join sep (y # ys)"

text \<open>\<open>s.startswith(p)\<close>, also SQL's \<open>date LIKE 'p%'\<close> for a prefix of digits and dashes.\<close>

fun startswith :: "string \<Rightarrow> string \<Rightarrow> bool" where
  "startswith s [] = True"
| "startswith [] (p # ps) = False"
| "startswith (c # cs) (p # ps) = (c = p \<and> startswith cs ps)"

text \<open>\<open>k in content\<close>: substring test.\<close>

fun contains :: "string \<Rightarrow> string \<Rightarrow> bool" where
  "contains [] k = (k = [])"
| "contains (c # cs) k = (startswith (c # cs) k \<or> contains cs k)"

section \<open>Labels of the source (UTF-8 bytes of the Korean text)\<close>

definition ko_income :: string where
  "ko_income = [CHR 0xEC, CHR 0x88, CHR 0x98, CHR 0xEC, CHR 0x9E, CHR 0x85]"

definition ko_expense :: string where
  "ko_expense = [CHR 0xEC, CHR 0xA7, CHR 0x80, CHR 0xEC, CHR 0xB6, CHR 0x9C]"

definition ko_transfer :: string where
  "ko_transfer = [CHR 0xEC, CHR 0x9D, CHR 0xB4, CHR 0xEC, CHR 0xB2, CHR 0xB4]"

definition ko_unclassified :: string where
  "ko_unclassified = [CHR 0xEB, CHR 0xAF, CHR 0xB8, CHR 0xEB, CHR 0xB6, CHR 0x84, CHR 0xEB, CHR 0xA5, CHR 0x98]"

definition ko_internal_transfer :: string where
  "ko_internal_transfer = [CHR 0xEB, CHR 0x82, CHR 0xB4, CHR 0xEB, CHR 0xB6, CHR 0x80, CHR 0xEC, CHR 0x9D, CHR 0xB4, CHR 0xEC, CHR 0xB2, CHR 0xB4]"

definition col_date :: string where
  "col_date = [CHR 0xEB, CHR 0x82, CHR 0xA0, CHR 0xEC, CHR 0xA7, CHR 0x9C]"

definition col_time :: string where
  "col_time = [CHR 0xEC, CHR 0x8B, CHR 0x9C, CHR 0xEA, CHR 0xB0, CHR 0x84]"

definition col_type :: string where
  "col_type = [CHR 0xED, CHR 0x83, CHR 0x80, CHR 0xEC, CHR 0x9E, CHR 0x85]"

definition col_major :: string where
  "col_major = [CHR 0xEB, CHR 0x8C, CHR 0x80, CHR 0xEB, CHR 0xB6, CHR 0x84, CHR 0xEB, CHR 0xA5, CHR 0x98]"

definition col_minor :: string where
  "col_minor = [CHR 0xEC, CHR 0x86, CHR 0x8C, CHR 0xEB, CHR 0xB6, CHR 0x84, CHR 0xEB, CHR 0xA5, CHR 0x98]"

definition col_content :: string where
  "col_content = [CHR 0xEB, CHR 0x82, CHR 0xB4, CHR 0xEC, CHR 0x9A, CHR 0xA9]"

definition col_amount :: string where
  "col_amount = [CHR 0xEA, CHR 0xB8, CHR 0x88, CHR 0xEC, CHR 0x95, CHR 0xA1]"

definition col_currency :: string where
  "col_currency = [CHR 0xED, CHR 0x99, CHR 0x94, CHR 0xED, CHR 0x8F, CHR 0x90]"

definition col_method :: string where
  "col_method = [CHR 0xEA, CHR 0xB2, CHR 0xB0, CHR 0xEC, CHR 0xA0, CHR 0x9C, CHR 0xEC, CHR 0x88, CHR 0x98, CHR 0xEB, CHR 0x8B, CHR 0xA8]"

definition col_memo :: string where
  "col_memo = [CHR 0xEB, CHR 0xA9, CHR 0x94, CHR 0xEB, CHR 0xAA, CHR 0xA8]"

definition kw_safebox :: string where
  "kw_safebox = [CHR 0xEC, CHR 0x84, CHR 0xB8, CHR 0xEC, CHR 0x9D, CHR 0xB4, CHR 0xED, CHR 0x94, CHR 0x84, CHR 0xEB, CHR 0xB0, CHR 0x95, CHR 0xEC, CHR 0x8A, CHR 0xA4]"

definition kw_to_my_account :: string where
  "kw_to_my_account = [CHR 0xEB, CHR 0x82, CHR 0xB4, CHR 0xEA, CHR 0xB3, CHR 0x84, CHR 0xEC, CHR 0xA2, CHR 0x8C, CHR 0xEB, CHR 0xA1, CHR 0x9C, CHR 0x20, CHR 0xEC, CHR 0x9D, CHR 0xB4, CHR 0xEC, CHR 0xB2, CHR 0xB4]"

definition kw_coin_saving :: string where
  "kw_coin_saving = [CHR 0xEB, CHR 0x8F, CHR 0x99, CHR 0xEC, CHR 0xA0, CHR 0x84, CHR 0x20, CHR 0xEB, CHR 0xAA, CHR 0xA8, CHR 0xEC, CHR 0x9C, CHR 0xBC, CHR 0xEA, CHR 0xB8, CHR 0xB0]"

definition kw_piggy_bank :: string where
  "kw_piggy_bank = [CHR 0xEC, CHR 0xA0, CHR 0x80, CHR 0xEA, CHR 0xB8, CHR 0x88, CHR 0xED, CHR 0x86, CHR 0xB5]"

definition kw_card_autocharge :: string where
  "kw_card_autocharge = [CHR 0xEC, CHR 0xB9, CHR 0xB4, CHR 0xEB, CHR 0x93, CHR 0x9C, CHR 0xEC, CHR 0x9E, CHR 0x94, CHR 0xEC, CHR 0x95, CHR 0xA1, CHR 0x20, CHR 0xEC, CHR 0x9E, CHR 0x90, CHR 0xEB, CHR 0x8F, CHR 0x99, CHR 0xEC, CHR 0xB6, CHR 0xA9, CHR 0xEC, CHR 0xA0, CHR 0x84]"

section \<open>Backend (backend/app/main.py): rows and normalizers\<close>

text \<open>
  A row of \<open>csv.DictReader\<close> is a dictionary from column name to cell; \<open>row.get\<close> is
  the map's lookup. The content fields every key function reads form the record
  \<open>keyed\<close>; a normalized candidate extends it with id, merchant and memo.
\<close>

type_synonym raw_row = "string \<rightharpoonup> string"

record keyed =
  k_date :: string
  k_amount :: string
  k_description :: string
  k_method :: string
  k_direction :: string
  k_raw_category :: string

record cand = keyed +
  c_id :: string
  c_merchant :: string
  c_memo :: string

text \<open>
  The exceptions that leave the functions of this development, as values.
\<close>

datatype py_error = ValueError | InvalidOperation | OverflowError | IntegrityError | HTTP nat

text \<open>
  The library's \<open>int(Decimal(text))\<close> is a parameter \<open>D\<close> of the normalizers:
  \<open>D text = Inr n\<close> when it gives the integer \<open>n\<close>, and \<open>Inl e\<close> when it raises \<open>e\<close>
  (\<open>InvalidOperation\<close> on a text that is no number, \<open>ValueError\<close> on \<open>NaN\<close>,
  \<open>OverflowError\<close> on \<open>Infinity\<close>). \<open>_parse_amount_to_signed_int\<close> and
  \<open>_parse_amount_to_abs_int\<close> catch \<open>InvalidOperation\<close> and \<open>ValueError\<close> and return
  \<open>None\<close>; any other exception leaves them. A missing cell is Python's \<open>None\<close>, whose
  \<open>str\<close> is the text \<open>None\<close>.
\<close>

type_synonym decimal_reader = "string \<Rightarrow> py_error + int"

definition parse_amount_to_abs_int :: "decimal_reader \<Rightarrow> string option \<Rightarrow> py_error + int option" where
  "parse_amount_to_abs_int D v =
     (case D (case v of None \<Rightarrow> ''None'' | Some s \<Rightarrow> s) of
        Inr n \<Rightarrow> Inr (Some \<bar>n\<bar>)
      | Inl e \<Rightarrow> if e = InvalidOperation \<or> e = ValueError then Inr None else Inl e)"

definition parse_amount_to_signed_int :: "decimal_reader \<Rightarrow> string option \<Rightarrow> py_error + int option" where
  "parse_amount_to_signed_int D v =
     (case D (case v of None \<Rightarrow> ''None'' | Some s \<Rightarrow> s) of
        Inr n \<Rightarrow> Inr (Some n)
      | Inl e \<Rightarrow> if e = InvalidOperation \<or> e = ValueError then Inr None else Inl e)"

definition TYPE_TO_DIRECTION :: "string \<rightharpoonup> string" where
  "TYPE_TO_DIRECTION = [ko_income \<mapsto> ''income'', ko_expense \<mapsto> ''expense'']"

text \<open>
  \<open>_normalize_cleaned_row\<close>; \<open>u\<close> is the text of the \<open>uuid.uuid4()\<close> drawn for the row.
  The result is \<open>Inr None\<close> for a rejected row, \<open>Inr (Some candidate)\<close> for an accepted
  one, and \<open>Inl e\<close> when the amount conversion raises \<open>e\<close>; the amount is read before
  the description.
\<close>

definition normalize_cleaned_row :: "decimal_reader \<Rightarrow> string \<Rightarrow> raw_row \<Rightarrow> py_error + cand option" where
  "normalize_cleaned_row D u row =
    (let date = strip (or_else (row ''date'') []) in
     if date = [] then Inr None else
     case parse_amount_to_signed_int D (row ''amount'') of
       Inl e \<Rightarrow> Inl e
     | Inr None \<Rightarrow> Inr None
     | Inr (Some amount) \<Rightarrow>
        (let direction0 = lower (strip (or_else (row ''direction'') []));
             direction = (if direction0 \<notin> {''income'', ''expense''}
                          then (if amount \<ge> 0 then ''income'' else ''expense'') else direction0);
             signed_amount = (if direction = ''income'' then \<bar>amount\<bar> else - \<bar>amount\<bar>);
             description = strip (or_else (row ''description'') [])
         in if description = [] then Inr None else
            Inr (Some \<lparr> k_date = date,
                   k_amount = str_int signed_amount,
                   k_description = description,
                   k_method = strip (or_else (row ''method'') []),
                   k_direction = direction,
                   k_raw_category = str_or (strip (or_else (row ''raw_category'') [])) ko_unclassified,
                   c_id = str_or (strip (or_else (row ''id'') [])) u,
                   c_merchant = str_or (strip (or_else (row ''merchant'') [])) description,
                   c_memo = strip (or_else (row ''memo'') []) \<rparr>)))"

text \<open>\<open>_normalize_tsv_row\<close>: the native export, Korean headers, commas removed from the amount.\<close>

definition normalize_tsv_row :: "decimal_reader \<Rightarrow> string \<Rightarrow> raw_row \<Rightarrow> py_error + cand option" where
  "normalize_tsv_row D u row =
    (let date = strip (or_else (row col_date) []) in
     if date = [] then Inr None else
     case parse_amount_to_signed_int D (Some (filter (\<lambda>c. c \<noteq> CHR '','') (or_else (row col_amount) []))) of
       Inl e \<Rightarrow> Inl e
     | Inr None \<Rightarrow> Inr None
     | Inr (Some amount) \<Rightarrow>
        (let tx_type = strip (or_else (row col_type) []);
             direction0 = TYPE_TO_DIRECTION tx_type;
             direction = (case direction0 of
                            Some d \<Rightarrow> if d \<notin> {''income'', ''expense''}
                                      then (if amount \<ge> 0 then ''income'' else ''expense'') else d
                          | None \<Rightarrow> (if amount \<ge> 0 then ''income'' else ''expense''));
             signed_amount = (if direction = ''income'' then \<bar>amount\<bar> else - \<bar>amount\<bar>);
             description = strip (or_else (row col_content) [])
         in if description = [] then Inr None else
            (let main_category = strip (or_else (row col_major) []);
                 sub_category = strip (or_else (row col_minor) []);
                 raw_category = (if main_category \<noteq> [] \<and> sub_category \<noteq> []
                                 then main_category @ ''>'' @ sub_category else ko_unclassified)
             in Inr (Some \<lparr> k_date = date,
                   k_amount = str_int signed_amount,
                   k_description = description,
                   k_method = strip (or_else (row col_method) []),
                   k_direction = direction,
                   k_raw_category = raw_category,
                   c_id = u,
                   c_merchant = description,
                   c_memo = strip (or_else (row col_memo) []) \<rparr>))))"

section \<open>Ledger variant (src/bankpoke/mvp.py): normalizer\<close>

text \<open>
  \<open>LedgerService._normalize_row\<close>. A row of \<open>csv.DictReader\<close> is here a dictionary from
  column name to an optional cell: a column of the header that the line is too short for
  is present with the value \<open>None\<close>, a column that is not in the header is absent. The
  amount is read with \<open>row.get(k, "0")\<close>, which sees the difference: an absent column
  gives \<open>0\<close>, a cell \<open>None\<close> gives the text \<open>None\<close>. \<open>get_cell\<close> is \<open>row.get(k)\<close>.

  Three library readers are parameters: \<open>P\<close> is \<open>datetime.strptime\<close> on \<open>date time\<close>
  (seconds on a fixed time line, \<open>None\<close> when it raises \<open>ValueError\<close>), \<open>I\<close> is
  \<open>int(text)\<close> (\<open>None\<close> when it raises \<open>ValueError\<close>), \<open>Hs\<close> is the SHA-256 hex digest.
  Neither exception is caught, so the result is a sum: \<open>Inl ValueError\<close>, or \<open>Inr None\<close>
  for a rejected row, or \<open>Inr (Some row)\<close>.
\<close>

type_synonym dict_row = "string \<rightharpoonup> string option"

definition get_cell :: "dict_row \<Rightarrow> string \<Rightarrow> string option" where
  "get_cell row k = (case row k of None \<Rightarrow> None | Some v \<Rightarrow> v)"

definition cells :: "raw_row \<Rightarrow> dict_row" where
  "cells row = (\<lambda>k. map_option Some (row k))"

record lrow =
  l_occurred_at :: int
  l_type :: string
  l_amount :: int
  l_signed_amount :: int
  l_currency :: string
  l_major_category :: "string option"
  l_minor_category :: "string option"
  l_content :: "string option"
  l_payment_method :: "string option"
  l_note :: "string option"
  l_row_hash :: string
  l_transfer_external :: bool
  l_review_required :: bool

definition TYPE_MAP :: "string \<rightharpoonup> string" where
  "TYPE_MAP = [ko_income \<mapsto> ''income'', ko_expense \<mapsto> ''expense'', ko_transfer \<mapsto> ''transfer'']"

definition none_if_blank :: "string option \<Rightarrow> string option" where
  "none_if_blank v = (case v of None \<Rightarrow> None
                      | Some s \<Rightarrow> (let cleaned = strip s in if cleaned = [] then None else Some cleaned))"

definition is_internal_transfer :: "string option \<Rightarrow> bool" where
  "is_internal_transfer content = (case content of None \<Rightarrow> False
     | Some c \<Rightarrow> list_ex (\<lambda>k. contains c k)
         [kw_safebox, kw_to_my_account, kw_coin_saving, kw_piggy_bank, kw_card_autocharge])"

definition normalize_row ::
  "(string \<Rightarrow> int option) \<Rightarrow> (string \<Rightarrow> int option) \<Rightarrow> (string \<Rightarrow> string) \<Rightarrow> dict_row
     \<Rightarrow> py_error + lrow option" where
  "normalize_row P I Hs row =
    (let date_s = strip (or_else (get_cell row col_date) []);
         time_s = strip (or_else (get_cell row col_time) ''00:00'') in
     if date_s = [] then Inr None else
     case P (date_s @ '' '' @ time_s) of
       None \<Rightarrow> Inl ValueError
     | Some occurred \<Rightarrow>
        (let raw_type = strip (or_else (get_cell row col_type) []);
             tx_type = (case TYPE_MAP raw_type of None \<Rightarrow> ''transfer'' | Some t \<Rightarrow> t) in
         case I (str_or (strip (filter (\<lambda>c. c \<noteq> CHR '','')
                    (case row col_amount of None \<Rightarrow> ''0'' | Some None \<Rightarrow> ''None'' | Some (Some s) \<Rightarrow> s)))
                  ''0'') of
           None \<Rightarrow> Inl ValueError
         | Some signed_amount \<Rightarrow>
            (let currency = str_or (strip (or_else (get_cell row col_currency) ''KRW'')) ''KRW'';
                 content = none_if_blank (get_cell row col_content);
                 payment_method = none_if_blank (get_cell row col_method);
                 review_required = ((tx_type = ''expense'' \<and> signed_amount > 0)
                                    \<or> (tx_type = ''income'' \<and> signed_amount < 0));
                 transfer_external = (tx_type = ''transfer'' \<and> \<not> is_internal_transfer content);
                 hash_input = join ''|'' [date_s, time_s, raw_type, str_int signed_amount, currency,
                                 (case payment_method of None \<Rightarrow> [] | Some m \<Rightarrow> m),
                                 (case content of None \<Rightarrow> [] | Some c \<Rightarrow> c)]
             in Inr (Some \<lparr> l_occurred_at = occurred,
                     l_type = tx_type,
                     l_amount = \<bar>signed_amount\<bar>,
                     l_signed_amount = signed_amount,
                     l_currency = currency,
                     l_major_category = none_if_blank (get_cell row col_major),
                     l_minor_category = none_if_blank (get_cell row col_minor),
                     l_content = content,
                     l_payment_method = payment_method,
                     l_note = none_if_blank (get_cell row col_memo),
                     l_row_hash = Hs hash_input,
                     l_transfer_external = transfer_external,
                     l_review_required = review_required \<rparr>))))"

section \<open>Backend: fingerprint and fallback keys\<close>

text \<open>
  The stored row. \<open>import_fingerprint\<close> is a nullable column; the other columns are
  written by every insert of the source. \<open>hashlib.sha256\<close> is a parameter \<open>Hd\<close> giving
  the digest as a number; \<open>hexdigest\<close> writes its 256 bits as 64 lower-case hexadecimal
  digits.
\<close>

record txn = keyed +
  t_id :: string
  t_merchant :: string
  t_memo :: string
  t_is_excluded :: bool
  t_import_fingerprint :: "string option"

type_synonym digest = "string \<Rightarrow> int"

definition hexdigit_char :: "nat \<Rightarrow> char" where
  "hexdigit_char n = (if n < 10 then char_of (48 + n) else char_of (87 + n))"

fun hex_digits :: "nat \<Rightarrow> int \<Rightarrow> string" where
  "hex_digits 0 d = []"
| "hex_digits (Suc k) d = hex_digits k (d div 16) @ [hexdigit_char (nat (d mod 16))]"

definition hexdigest :: "int \<Rightarrow> string" where
  "hexdigest d = hex_digits 64 d"

definition transaction_dedup_key :: "'a keyed_scheme \<Rightarrow> string list" where
  "transaction_dedup_key row =
     [strip (k_date row), strip (k_amount row), strip (k_description row),
      strip (k_method row), strip (k_direction row), strip (k_raw_category row)]"

definition transaction_fingerprint :: "digest \<Rightarrow> 'a keyed_scheme \<Rightarrow> string" where
  "transaction_fingerprint Hd row = hexdigest (Hd (join ''|'' (transaction_dedup_key row)))"

definition transaction_fallback_key_with_method ::
  "'a keyed_scheme \<Rightarrow> string \<times> string \<times> string \<times> string" where
  "transaction_fallback_key_with_method row =
     (strip (k_date row), strip (k_amount row), strip (k_direction row), strip (k_method row))"

definition transaction_fallback_key :: "'a keyed_scheme \<Rightarrow> string \<times> string \<times> string" where
  "transaction_fallback_key row =
     (strip (k_date row), strip (k_amount row), strip (k_direction row))"

definition transaction_fallback_key_without_amount ::
  "'a keyed_scheme \<Rightarrow> string \<times> string \<times> string \<times> string" where
  "transaction_fallback_key_without_amount row =
     (strip (k_date row), strip (k_description row), strip (k_direction row), strip (k_method row))"

section \<open>Backend: the import batch\<close>

text \<open>
  The state of the loop of \<open>import_transactions\<close>: the rows of the open connection,
  the set of seen fingerprints, the three dictionaries from fallback key to the list of
  row ids (read only through \<open>get(key, [])\<close> and \<open>setdefault(key, []).append\<close>, so a
  function with default \<open>[]\<close>), and the counter of skipped rows.
\<close>

record istate =
  db :: "txn list"
  seen_fingerprints :: "string set"
  fallback_with_method_map :: "string \<times> string \<times> string \<times> string \<Rightarrow> string list"
  fallback_map :: "string \<times> string \<times> string \<Rightarrow> string list"
  fallback_without_amount_map :: "string \<times> string \<times> string \<times> string \<Rightarrow> string list"
  skipped_duplicates :: nat

definition register_keys :: "'a keyed_scheme \<Rightarrow> string \<Rightarrow> istate \<Rightarrow> istate" where
  "register_keys row row_id st =
     (let key_with_method = transaction_fallback_key_with_method row;
          key = transaction_fallback_key row;
          key_without_amount = transaction_fallback_key_without_amount row
      in st\<lparr> fallback_with_method_map :=
               (fallback_with_method_map st)
                 (key_with_method := fallback_with_method_map st key_with_method @ [row_id]),
             fallback_map := (fallback_map st)(key := fallback_map st key @ [row_id]),
             fallback_without_amount_map :=
               (fallback_without_amount_map st)
                 (key_without_amount := fallback_without_amount_map st key_without_amount @ [row_id]) \<rparr>)"

text \<open>Lines 494 to 526: the rows are loaded, the seen set and the three dictionaries built.\<close>

definition load_existing :: "txn list \<Rightarrow> istate" where
  "load_existing existing_rows =
     foldl (\<lambda>st r. register_keys r (t_id r) st)
       \<lparr> db = existing_rows,
         seen_fingerprints =
           set (concat (map (\<lambda>r. case t_import_fingerprint r of
                                    None \<Rightarrow> []
                                  | Some f \<Rightarrow> if strip f \<noteq> [] then [strip f] else [])
                            existing_rows)),
         fallback_with_method_map = (\<lambda>_. []),
         fallback_map = (\<lambda>_. []),
         fallback_without_amount_map = (\<lambda>_. []),
         skipped_duplicates = 0 \<rparr>
       existing_rows"

text \<open>Lines 534 to 549: the cascade. A level decides only when it holds exactly one id.\<close>

definition match_existing :: "istate \<Rightarrow> cand \<Rightarrow> string option" where
  "match_existing st row =
     (let candidates_with_method = fallback_with_method_map st (transaction_fallback_key_with_method row) in
      if length candidates_with_method = 1 then Some (candidates_with_method ! 0)
      else
       (let candidates = fallback_map st (transaction_fallback_key row) in
        if length candidates = 1 then Some (candidates ! 0)
        else
         (let candidates_without_amount =
                fallback_without_amount_map st (transaction_fallback_key_without_amount row) in
          if length candidates_without_amount = 1 then Some (candidates_without_amount ! 0)
          else None)))"

definition AUTO_EXCLUDED_CATEGORIES :: "string set" where
  "AUTO_EXCLUDED_CATEGORIES = {ko_transfer, ko_internal_transfer, ''transfer'', ''internal transfer''}"

definition new_txn :: "cand \<Rightarrow> bool \<Rightarrow> string \<Rightarrow> txn" where
  "new_txn row is_excluded fingerprint =
     \<lparr> k_date = k_date row, k_amount = k_amount row, k_description = k_description row,
       k_method = k_method row, k_direction = k_direction row, k_raw_category = k_raw_category row,
       t_id = c_id row, t_merchant = c_merchant row, t_memo = c_memo row,
       t_is_excluded = is_excluded, t_import_fingerprint = Some fingerprint \<rparr>"

text \<open>
  One turn of the loop (lines 528 to 592). The table's primary key is \<open>id\<close>: an insert
  of an id that is already stored raises \<open>IntegrityError\<close>, which nothing catches.
\<close>

definition import_row :: "digest \<Rightarrow> cand \<Rightarrow> istate \<Rightarrow> py_error + istate" where
  "import_row Hd row st =
     (let fingerprint = transaction_fingerprint Hd row in
      if fingerprint \<in> seen_fingerprints st
      then Inr (st\<lparr> skipped_duplicates := skipped_duplicates st + 1 \<rparr>)
      else
       (case match_existing st row of
          Some matched_existing_id \<Rightarrow>
            Inr (st\<lparr> db := map (\<lambda>r. if t_id r = matched_existing_id
                                     then r\<lparr> t_import_fingerprint := Some fingerprint \<rparr> else r) (db st),
                      seen_fingerprints := insert fingerprint (seen_fingerprints st),
                      skipped_duplicates := skipped_duplicates st + 1 \<rparr>)
        | None \<Rightarrow>
            (let is_excluded = (strip (k_raw_category row) \<in> AUTO_EXCLUDED_CATEGORIES) in
             if c_id row \<in> t_id ` set (db st) then Inl IntegrityError
             else Inr (register_keys row (c_id row)
                        (st\<lparr> db := db st @ [new_txn row is_excluded fingerprint],
                             seen_fingerprints := insert fingerprint (seen_fingerprints st) \<rparr>)))))"

fun import_rows :: "digest \<Rightarrow> cand list \<Rightarrow> istate \<Rightarrow> py_error + istate" where
  "import_rows Hd [] st = Inr st"
| "import_rows Hd (row # rows) st =
     (case import_row Hd row st of Inl e \<Rightarrow> Inl e | Inr st' \<Rightarrow> import_rows Hd rows st')"

record import_result =
  imported :: nat
  skipped :: nat
  deleted :: nat

text \<open>
  The second \<open>with get_connection\<close> block (lines 494 to 600) on the committed rows
  \<open>s\<close>: the block commits at its end, and the connection's context manager rolls back
  when an exception leaves it. The result is the committed store afterwards and the
  response or the error.
\<close>

definition import_phase :: "digest \<Rightarrow> cand list \<Rightarrow> nat \<Rightarrow> txn list \<Rightarrow> txn list \<times> (py_error + import_result)" where
  "import_phase Hd normalized_rows n_deleted s =
     (case import_rows Hd normalized_rows (load_existing s) of
        Inl e \<Rightarrow> (s, Inl e)
      | Inr st \<Rightarrow> (db st, Inr \<lparr> imported = length normalized_rows - skipped_duplicates st,
                               skipped = skipped_duplicates st,
                               deleted = n_deleted \<rparr>))"

text \<open>
  The month replacement (lines 463 to 490). \<open>I\<close> is Python's \<open>int(text)\<close>, \<open>None\<close>
  when it raises \<open>ValueError\<close>. The delete runs and commits in a connection of its own.
\<close>

record directive =
  replace_month :: bool
  year :: "int option"
  month :: "int option"

definition zfill :: "nat \<Rightarrow> string \<Rightarrow> string" where
  "zfill n s = replicate (n - length s) CHR ''0'' @ s"

definition month_prefix :: "int \<Rightarrow> int \<Rightarrow> string" where
  "month_prefix y m = zfill 4 (str_int y) @ ''-'' @ zfill 2 (str_int m)"

definition target_month :: "(string \<Rightarrow> int option) \<Rightarrow> directive \<Rightarrow> cand list \<Rightarrow> py_error + int \<times> int" where
  "target_month I dir normalized_rows =
     (case (year dir, month dir) of
        (Some y, Some m) \<Rightarrow> Inr (y, m)
      | _ \<Rightarrow>
        (case remdups (map (\<lambda>row. take 7 (k_date row))
                 (filter (\<lambda>row. length (k_date row) \<ge> 7) normalized_rows)) of
           [key] \<Rightarrow> (case (I (take 4 key), I (take 2 (drop 5 key))) of
                      (Some y, Some m) \<Rightarrow> Inr (y, m)
                    | _ \<Rightarrow> Inl ValueError)
         | _ \<Rightarrow> Inl (HTTP 400)))"

definition import_transactions ::
  "digest \<Rightarrow> (string \<Rightarrow> int option) \<Rightarrow> directive \<Rightarrow> cand list \<Rightarrow> txn list
     \<Rightarrow> txn list \<times> (py_error + import_result)" where
  "import_transactions Hd I dir normalized_rows s =
     (if normalized_rows = [] then (s, Inl (HTTP 400))
      else if replace_month dir then
        (case target_month I dir normalized_rows of
           Inl e \<Rightarrow> (s, Inl e)
         | Inr (target_year, target_mon) \<Rightarrow>
             if target_year < 2000 \<or> target_year > 2100 \<or> target_mon < 1 \<or> target_mon > 12
             then (s, Inl (HTTP 400))
             else
              (let prefix = month_prefix target_year target_mon;
                   kept = filter (\<lambda>r. \<not> startswith (k_date r) prefix) s
               in import_phase Hd normalized_rows (length s - length kept) kept))
      else import_phase Hd normalized_rows 0 s)"

text \<open>
  Lines 454 to 458: every row of the file is normalized by the normalizer of the file's
  schema, with the uuid drawn for it, and the rows that give \<open>None\<close> are left out. An
  exception of a normalizer leaves the handler before any statement has run.
\<close>

fun normalized_rows_of ::
  "decimal_reader \<Rightarrow> bool \<Rightarrow> (string \<times> raw_row) list \<Rightarrow> py_error + cand list" where
  "normalized_rows_of D is_cleaned_schema [] = Inr []"
| "normalized_rows_of D is_cleaned_schema ((u, row) # rows) =
     (case (if is_cleaned_schema then normalize_cleaned_row D u row else normalize_tsv_row D u row) of
        Inl e \<Rightarrow> Inl e
      | Inr normalized \<Rightarrow>
         (case normalized_rows_of D is_cleaned_schema rows of
            Inl e \<Rightarrow> Inl e
          | Inr rest \<Rightarrow> Inr (case normalized of None \<Rightarrow> rest | Some n \<Rightarrow> n # rest)))"

text \<open>The handler from the rows of the reader on: normalization, then the batch.\<close>

definition import_file ::
  "decimal_reader \<Rightarrow> digest \<Rightarrow> (string \<Rightarrow> int option) \<Rightarrow> directive \<Rightarrow> bool
     \<Rightarrow> (string \<times> raw_row) list \<Rightarrow> txn list \<Rightarrow> txn list \<times> (py_error + import_result)" where
  "import_file D Hd I dir is_cleaned_schema file_rows s =
     (case normalized_rows_of D is_cleaned_schema file_rows of
        Inl e \<Rightarrow> (s, Inl e)
      | Inr normalized_rows \<Rightarrow> import_transactions Hd I dir normalized_rows s)"

section \<open>Backend: single-row create and the update paths\<close>

record create_request =
  cr_date :: string
  cr_direction :: string
  cr_category :: string
  cr_description :: string
  cr_amount :: int
  cr_method :: string
  cr_memo :: string
  cr_excluded :: bool

text \<open>
  \<open>create_transaction\<close>; \<open>u\<close> is the uuid drawn. The request model admits only the
  directions \<open>income\<close> and \<open>expense\<close> (status 422 otherwise, before the handler runs).
\<close>

definition create_transaction :: "digest \<Rightarrow> string \<Rightarrow> create_request \<Rightarrow> txn list \<Rightarrow> py_error + txn list" where
  "create_transaction Hd u payload s =
     (if cr_direction payload \<notin> {''income'', ''expense''} then Inl (HTTP 422)
      else if cr_amount payload \<le> 0 then Inl (HTTP 400)
      else
       (let cleaned_date = strip (cr_date payload) in
        if cleaned_date = [] then Inl (HTTP 400)
        else
         (let cleaned_category = str_or (strip (cr_category payload)) ko_unclassified;
              cleaned_description = strip (cr_description payload) in
          if cleaned_description = [] then Inl (HTTP 400)
          else
           (let signed_amount = (if cr_direction payload = ''income''
                                 then \<bar>cr_amount payload\<bar> else - \<bar>cr_amount payload\<bar>);
                model = \<lparr> k_date = cleaned_date, k_amount = str_int signed_amount,
                          k_description = cleaned_description, k_method = strip (cr_method payload),
                          k_direction = cr_direction payload, k_raw_category = cleaned_category \<rparr>;
                fingerprint = transaction_fingerprint Hd model
            in if u \<in> t_id ` set s then Inl IntegrityError
               else Inr (s @ [\<lparr> k_date = cleaned_date, k_amount = str_int signed_amount,
                                 k_description = cleaned_description, k_method = strip (cr_method payload),
                                 k_direction = cr_direction payload, k_raw_category = cleaned_category,
                                 t_id = u, t_merchant = cleaned_description,
                                 t_memo = strip (cr_memo payload),
                                 t_is_excluded = cr_excluded payload,
                                 t_import_fingerprint = Some fingerprint \<rparr>])))))"

record update_request =
  p_date :: "string option"
  p_category :: "string option"
  p_description :: "string option"
  p_amount :: "int option"
  p_method :: "string option"
  p_excluded :: "bool option"

record match_request =
  o_date :: string
  o_category :: string
  o_description :: string
  o_amount :: int
  o_method :: string
  o_excluded :: bool

text \<open>The dictionary \<open>updates\<close>: one optional entry per column it can hold.\<close>

record updates =
  u_date :: "string option"
  u_raw_category :: "string option"
  u_description :: "string option"
  u_merchant :: "string option"
  u_method :: "string option"
  u_amount :: "string option"
  u_is_excluded :: "string option"
  u_import_fingerprint :: "string option"

definition no_updates :: "updates \<Rightarrow> bool" where
  "no_updates u = (u_date u = None \<and> u_raw_category u = None \<and> u_description u = None
      \<and> u_merchant u = None \<and> u_method u = None \<and> u_amount u = None
      \<and> u_is_excluded u = None \<and> u_import_fingerprint u = None)"

definition build_transaction_updates :: "update_request \<Rightarrow> string \<Rightarrow> py_error + updates" where
  "build_transaction_updates payload direction =
     (if (case p_date payload of Some d \<Rightarrow> strip d = [] | None \<Rightarrow> False) then Inl (HTTP 400)
      else if (case p_amount payload of Some a \<Rightarrow> a \<le> 0 | None \<Rightarrow> False) then Inl (HTTP 400)
      else Inr \<lparr> u_date = map_option strip (p_date payload),
                 u_raw_category = map_option (\<lambda>c. str_or (strip c) ko_unclassified) (p_category payload),
                 u_description = map_option strip (p_description payload),
                 u_merchant = map_option strip (p_description payload),
                 u_method = map_option strip (p_method payload),
                 u_amount = map_option (\<lambda>a. str_int (if direction = ''expense'' then - \<bar>a\<bar> else \<bar>a\<bar>))
                              (p_amount payload),
                 u_is_excluded = map_option (\<lambda>e. if e then ''1'' else ''0'') (p_excluded payload),
                 u_import_fingerprint = None \<rparr>)"

definition get_or :: "'a option \<Rightarrow> 'a \<Rightarrow> 'a" where
  "get_or v d = (case v of None \<Rightarrow> d | Some x \<Rightarrow> x)"

text \<open>The \<open>SET\<close> clause on one row: the columns present in \<open>updates\<close> are overwritten.\<close>

definition set_columns :: "updates \<Rightarrow> txn \<Rightarrow> txn" where
  "set_columns u r =
     r\<lparr> k_date := get_or (u_date u) (k_date r),
        k_raw_category := get_or (u_raw_category u) (k_raw_category r),
        k_description := get_or (u_description u) (k_description r),
        t_merchant := get_or (u_merchant u) (t_merchant r),
        k_method := get_or (u_method u) (k_method r),
        k_amount := get_or (u_amount u) (k_amount r),
        t_is_excluded := (case u_is_excluded u of None \<Rightarrow> t_is_excluded r | Some v \<Rightarrow> v = ''1''),
        t_import_fingerprint := (case u_import_fingerprint u of
                                   None \<Rightarrow> t_import_fingerprint r | Some f \<Rightarrow> Some f) \<rparr>"

definition apply_transaction_update :: "string \<Rightarrow> updates \<Rightarrow> string \<Rightarrow> txn list \<Rightarrow> txn list \<times> nat" where
  "apply_transaction_update transaction_id u direction s =
     (map (\<lambda>r. if t_id r = transaction_id \<and> k_direction r = direction then set_columns u r else r) s,
      length (filter (\<lambda>r. t_id r = transaction_id \<and> k_direction r = direction) s))"

text \<open>
  \<open>update_expense_transaction\<close> and \<open>update_income_transaction\<close> differ in the literal
  direction only, here the argument \<open>direction\<close>. An error leaves the store as it was.
\<close>

definition update_transaction ::
  "digest \<Rightarrow> string \<Rightarrow> string \<Rightarrow> update_request \<Rightarrow> txn list \<Rightarrow> py_error + txn list" where
  "update_transaction Hd direction transaction_id payload s =
     (case build_transaction_updates payload direction of
        Inl e \<Rightarrow> Inl e
      | Inr u \<Rightarrow>
         if no_updates u then Inl (HTTP 400)
         else
          (case find (\<lambda>r. t_id r = transaction_id \<and> k_direction r = direction) s of
             None \<Rightarrow> Inl (HTTP 404)
           | Some row \<Rightarrow>
              (let new_fingerprint = transaction_fingerprint Hd
                     \<lparr> k_date = get_or (u_date u) (k_date row),
                       k_amount = get_or (u_amount u) (k_amount row),
                       k_description = get_or (u_description u) (k_description row),
                       k_method = get_or (u_method u) (k_method row),
                       k_direction = direction,
                       k_raw_category = get_or (u_raw_category u) (k_raw_category row) \<rparr>
               in case apply_transaction_update transaction_id
                         (u\<lparr> u_import_fingerprint := Some new_fingerprint \<rparr>) direction s of
                    (s', rowcount) \<Rightarrow> if rowcount = 0 then Inl (HTTP 404) else Inr s')))"

text \<open>
  \<open>update_expense_transaction_by_match\<close> and \<open>update_income_transaction_by_match\<close>.
  The rows selected by the snapshot's columns are walked in order and the ids whose
  absolute amount is the snapshot's are collected; an exception of the amount conversion
  leaves the handler.
\<close>

fun matched_ids_loop :: "decimal_reader \<Rightarrow> int \<Rightarrow> txn list \<Rightarrow> py_error + string list" where
  "matched_ids_loop D original_amount [] = Inr []"
| "matched_ids_loop D original_amount (row # rows) =
     (case parse_amount_to_abs_int D (Some (k_amount row)) of
        Inl e \<Rightarrow> Inl e
      | Inr amount \<Rightarrow>
         (case matched_ids_loop D original_amount rows of
            Inl e \<Rightarrow> Inl e
          | Inr ids \<Rightarrow> Inr (if amount = Some original_amount then t_id row # ids else ids)))"

definition matched_ids :: "decimal_reader \<Rightarrow> string \<Rightarrow> match_request \<Rightarrow> txn list \<Rightarrow> py_error + string list" where
  "matched_ids D direction original s =
     matched_ids_loop D (o_amount original)
       (filter (\<lambda>r. k_direction r = direction
                   \<and> k_date r = strip (o_date original)
                   \<and> k_raw_category r = strip (o_category original)
                   \<and> k_description r = strip (o_description original)
                   \<and> k_method r = strip (o_method original)
                   \<and> t_is_excluded r = o_excluded original) s)"

definition update_transaction_by_match ::
  "decimal_reader \<Rightarrow> string \<Rightarrow> match_request \<Rightarrow> update_request \<Rightarrow> txn list
     \<Rightarrow> py_error + txn list" where
  "update_transaction_by_match D direction original updated s =
     (case build_transaction_updates updated direction of
        Inl e \<Rightarrow> Inl e
      | Inr u \<Rightarrow>
         if no_updates u then Inl (HTTP 400)
         else if o_amount original \<le> 0 then Inl (HTTP 400)
         else
          (case matched_ids D direction original s of
             Inl e \<Rightarrow> Inl e
           | Inr ids \<Rightarrow>
              if length ids = 0 then Inl (HTTP 404)
              else if length ids > 1 then Inl (HTTP 409)
              else
               (case apply_transaction_update (ids ! 0) u direction s of
                  (s', rowcount) \<Rightarrow> if rowcount = 0 then Inl (HTTP 404) else Inr s')))"

section \<open>Backend: the monthly summary\<close>

record monthly_summary =
  ms_income :: int
  ms_expense :: int
  ms_net_cashflow :: int
  ms_transaction_count :: nat

text \<open>
  One turn of the loop of \<open>summary\<close> on the triple (income, expense, count), and the
  loop; an exception of the amount conversion leaves the handler.
\<close>

definition summary_step :: "decimal_reader \<Rightarrow> int \<times> int \<times> nat \<Rightarrow> txn \<Rightarrow> py_error + int \<times> int \<times> nat" where
  "summary_step D acc row =
     (case acc of (income, expense, transaction_count) \<Rightarrow>
      (case parse_amount_to_abs_int D (Some (k_amount row)) of
         Inl e \<Rightarrow> Inl e
       | Inr None \<Rightarrow> Inr (income, expense, transaction_count)
       | Inr (Some amount) \<Rightarrow>
          (let direction = lower (strip (k_direction row));
               is_excluded = t_is_excluded row in
           if is_excluded \<and> direction \<in> {''income'', ''expense''}
           then Inr (income, expense, transaction_count + 1)
           else if direction = ''income'' then Inr (income + amount, expense, transaction_count + 1)
           else if direction = ''expense'' then Inr (income, expense + amount, transaction_count + 1)
           else Inr (income, expense, transaction_count + 1))))"

fun summary_loop :: "decimal_reader \<Rightarrow> txn list \<Rightarrow> int \<times> int \<times> nat \<Rightarrow> py_error + int \<times> int \<times> nat" where
  "summary_loop D [] acc = Inr acc"
| "summary_loop D (row # rows) acc =
     (case summary_step D acc row of Inl e \<Rightarrow> Inl e | Inr acc' \<Rightarrow> summary_loop D rows acc')"

definition summary :: "decimal_reader \<Rightarrow> int \<Rightarrow> int \<Rightarrow> txn list \<Rightarrow> py_error + monthly_summary" where
  "summary D y m s =
     (case summary_loop D (filter (\<lambda>r. startswith (k_date r) (month_prefix y m)) s) (0, 0, 0) of
        Inl e \<Rightarrow> Inl e
      | Inr (income, expense, transaction_count) \<Rightarrow>
          Inr \<lparr> ms_income = income, ms_expense = expense, ms_net_cashflow = income - expense,
                ms_transaction_count = transaction_count \<rparr>)"

section \<open>Ledger variant: the pairing pass\<close>

text \<open>
  A stored ledger row: the normalized columns, the autoincrement id and the group.
  \<open>occurred_at\<close> is text of the fixed width \<open>YYYY-MM-DD HH:MM:SS\<close>, whose order is the
  order of time; it is kept as the seconds \<open>strptime\<close> reads from it. \<open>ORDER BY\<close> is
  taken stable. \<open>G\<close> is the MD5 hex digest.
\<close>

record ltx = lrow +
  l_id :: int
  l_transfer_group_id :: "string option"





section \<open>Ledger variant: the import\<close>



definition stored :: "lrow \<Rightarrow> int \<Rightarrow> ltx" where
  "stored n i = \<lparr> l_occurred_at = l_occurred_at n, l_type = l_type n, l_amount = l_amount n,
     l_signed_amount = l_signed_amount n, l_currency = l_currency n,
     l_major_category = l_major_category n, l_minor_category = l_minor_category n,
     l_content = l_content n, l_payment_method = l_payment_method n, l_note = l_note n,
     l_row_hash = l_row_hash n, l_transfer_external = l_transfer_external n,
     l_review_required = l_review_required n, l_id = i, l_transfer_group_id = None \<rparr>"



section \<open>Readers for plain integer literals\<close>

text \<open>
  On a plain integer literal (optional sign, ASCII digits, white space around) both
  \<open>int(text)\<close> and \<open>int(Decimal(text))\<close> give its value. \<open>int_literal\<close> reads exactly
  these; it instantiates the reader parameters in the examples.
\<close>

definition digit_val :: "char \<Rightarrow> nat option" where
  "digit_val c = (let n = (of_char c :: nat) in if 48 \<le> n \<and> n \<le> 57 then Some (n - 48) else None)"

fun read_digits :: "nat \<Rightarrow> string \<Rightarrow> nat option" where
  "read_digits acc [] = Some acc"
| "read_digits acc (c # cs) =
     (case digit_val c of None \<Rightarrow> None | Some d \<Rightarrow> read_digits (10 * acc + d) cs)"

definition int_literal :: "string \<Rightarrow> int option" where
  "int_literal s =
     (case strip s of
        [] \<Rightarrow> None
      | c # cs \<Rightarrow>
          if c = CHR ''-'' then (if cs = [] then None else map_option (\<lambda>n. - int n) (read_digits 0 cs))
          else if c = CHR ''+'' then (if cs = [] then None else map_option int (read_digits 0 cs))
          else map_option int (read_digits 0 (c # cs)))"

text \<open>
  A reader for \<open>int(Decimal(text))\<close> in the examples: the value of a plain integer
  literal, \<open>OverflowError\<close> on the infinities, \<open>ValueError\<close> on \<open>NaN\<close>, and
  \<open>InvalidOperation\<close> on the other texts of the examples.
\<close>

definition decimal_literal :: decimal_reader where
  "decimal_literal s =
     (case int_literal s of
        Some n \<Rightarrow> Inr n
      | None \<Rightarrow>
          if lower (strip s) \<in> {''infinity'', ''inf'', ''+infinity'', ''+inf'', ''-infinity'', ''-inf''}
          then Inl OverflowError
          else if lower (strip s) \<in> {''nan'', ''+nan'', ''-nan''} then Inl ValueError
          else Inl InvalidOperation)"

text \<open>
  A digest for the examples: the text read as a number in base 256, first byte lowest.
  It separates texts of up to 32 bytes, as SHA-256 separates the keys of the examples.
\<close>

definition base256 :: digest where
  "base256 k = foldr (\<lambda>c n. n * 256 + of_char c) k 0"

section \<open>Direction resolution of the native schema\<close>

lemma ko_labels_distinct:
  "ko_income \<noteq> ko_expense" "ko_income \<noteq> ko_transfer" "ko_expense \<noteq> ko_transfer"
  by (simp_all add: ko_income_def ko_expense_def ko_transfer_def)

lemma type_to_direction_cases:
  "TYPE_TO_DIRECTION t =
     (if t = ko_expense then Some ''expense'' else if t = ko_income then Some ''income'' else None)"
  by (simp add: TYPE_TO_DIRECTION_def)

definition ex_transfer_row :: raw_row where
  "ex_transfer_row = [col_date \<mapsto> ''2026-02-13'', col_type \<mapsto> ko_transfer,
                      col_amount \<mapsto> ''1,000'', col_content \<mapsto> ''safe'']"

definition ex_untyped_row :: dict_row where
  "ex_untyped_row = cells [col_date \<mapsto> ''2026-02-13'', col_type \<mapsto> ''etc'',
                     col_amount \<mapsto> ''-5'', col_content \<mapsto> ''shop'']"

text \<open>
  C9, as stated, fails on both normalizers. The backend's table \<open>TYPE_TO_DIRECTION\<close>
  has two entries: a row of type transfer with amount 1,000 gets the direction
  \<open>income\<close>. The ledger's table \<open>TYPE_MAP\<close> has three entries, and a row of an
  unrecognized type with amount -5 gets the type \<open>transfer\<close>, not \<open>expense\<close>.
\<close>

theorem direction_three_way_counterexample:
  "map_sum id (map_option k_direction) (normalize_tsv_row decimal_literal ''u1'' ex_transfer_row)
       = Inr (Some ''income'')
   \<and> map_sum id (map_option l_type) (normalize_row (\<lambda>_. Some 0) int_literal (\<lambda>_. ''h'') ex_untyped_row)
       = Inr (Some ''transfer'')"
  by code_simp

text \<open>
  C9, amended: a native row the backend normalizer accepts gets its direction from a
  two-way table (income, expense), and from the sign of the amount for every other
  type, transfer included: \<open>income\<close> when the amount is at least 0, else \<open>expense\<close>.
  A row the ledger normalizer accepts gets its type from a three-way table (income,
  expense, transfer), and the type \<open>transfer\<close> when the type is not in the table.
\<close>

theorem native_direction_resolution:
  "(normalize_tsv_row D u row = Inr (Some c) \<longrightarrow>
      (\<exists>amount. parse_amount_to_signed_int D
                   (Some (filter (\<lambda>c. c \<noteq> CHR '','') (or_else (row col_amount) ''''))) = Inr (Some amount)
        \<and> k_direction c =
           (let t = strip (or_else (row col_type) '''') in
            if t = ko_income then ''income'' else if t = ko_expense then ''expense''
            else if amount \<ge> 0 then ''income'' else ''expense'')))
   \<and> (normalize_row P I Hs rowl = Inr (Some r) \<longrightarrow>
        l_type r =
           (let t = strip (or_else (get_cell rowl col_type) '''') in
            if t = ko_income then ''income'' else if t = ko_expense then ''expense''
            else ''transfer''))"
proof (intro conjI impI)
  assume "normalize_tsv_row D u row = Inr (Some c)"
  then show "\<exists>amount. parse_amount_to_signed_int D
                   (Some (filter (\<lambda>c. c \<noteq> CHR '','') (or_else (row col_amount) ''''))) = Inr (Some amount)
        \<and> k_direction c =
           (let t = strip (or_else (row col_type) '''') in
            if t = ko_income then ''income'' else if t = ko_expense then ''expense''
            else if amount \<ge> 0 then ''income'' else ''expense'')"
    using ko_labels_distinct
    by (auto simp: normalize_tsv_row_def Let_def type_to_direction_cases
             split: if_splits option.splits sum.splits)
next
  assume "normalize_row P I Hs rowl = Inr (Some r)"
  then show "l_type r =
           (let t = strip (or_else (get_cell rowl col_type) '''') in
            if t = ko_income then ''income'' else if t = ko_expense then ''expense''
            else ''transfer'')"
    using ko_labels_distinct
    by (auto simp: normalize_row_def Let_def TYPE_MAP_def split: if_splits option.splits sum.splits)
qed

definition ex_transfer_cand :: cand where
  "ex_transfer_cand = \<lparr> k_date = ''2026-02-13'', k_amount = ''1000'', k_description = ''safe'',
      k_method = [], k_direction = ''income'', k_raw_category = ko_unclassified,
      c_id = ''u1'', c_merchant = ''safe'', c_memo = [] \<rparr>"

definition ex_untyped_lrow :: lrow where
  "ex_untyped_lrow = \<lparr> l_occurred_at = 0, l_type = ''transfer'', l_amount = 5,
      l_signed_amount = - 5, l_currency = ''KRW'', l_major_category = None,
      l_minor_category = None, l_content = Some ''shop'', l_payment_method = None,
      l_note = None, l_row_hash = ''h'', l_transfer_external = True,
      l_review_required = False \<rparr>"

theorem native_direction_resolution_witness:
  "normalize_tsv_row decimal_literal ''u1'' ex_transfer_row = Inr (Some ex_transfer_cand)
   \<and> k_direction ex_transfer_cand = ''income''
   \<and> strip (or_else (ex_transfer_row col_type) '''') = ko_transfer
   \<and> normalize_row (\<lambda>_. Some 0) int_literal (\<lambda>_. ''h'') ex_untyped_row = Inr (Some ex_untyped_lrow)
   \<and> l_type ex_untyped_lrow = ''transfer''
   \<and> strip (or_else (get_cell ex_untyped_row col_type) '''') = ''etc''"
proof -
  have h1: "normalize_tsv_row decimal_literal ''u1'' ex_transfer_row = Inr (Some ex_transfer_cand)"
    by code_simp
  have h2: "normalize_row (\<lambda>_. Some 0) int_literal (\<lambda>_. ''h'') ex_untyped_row = Inr (Some ex_untyped_lrow)"
    by code_simp
  have h3: "strip (or_else (ex_transfer_row col_type) '''') = ko_transfer"
    by code_simp
  have h4: "strip (or_else (get_cell ex_untyped_row col_type) '''') = ''etc''"
    by code_simp
  have h5: "k_direction ex_transfer_cand = ''income''" "l_type ex_untyped_lrow = ''transfer''"
    by (simp_all add: ex_transfer_cand_def ex_untyped_lrow_def)
  show ?thesis
    using native_direction_resolution [of decimal_literal "''u1''" ex_transfer_row ex_transfer_cand
        "\<lambda>_. Some 0" int_literal "\<lambda>_. ''h''" ex_untyped_row ex_untyped_lrow] h1 h2 h3 h4 h5
    by simp
qed


section \<open>Exclusion in the monthly summary\<close>

lemma summary_step_excluded:
  assumes "t_is_excluded r" and "D (k_amount r) = Inr a"
  shows "summary_step D (i, e, c) r = Inr (i, e, c + 1)"
  using assms by (simp add: summary_step_def parse_amount_to_abs_int_def Let_def)

lemma summary_step_count_shift:
  "summary_step D (i, e, c + k) r =
     map_sum id (\<lambda>(i', e', c'). (i', e', c' + k)) (summary_step D (i, e, c) r)"
  by (simp add: summary_step_def Let_def split: option.splits sum.splits)

lemma summary_loop_count_shift:
  "summary_loop D rs (i, e, c + k) =
     map_sum id (\<lambda>(i', e', c'). (i', e', c' + k)) (summary_loop D rs (i, e, c))"
proof (induction rs arbitrary: i e c)
  case Nil
  show ?case by simp
next
  case (Cons r rs)
  show ?case
  proof (cases "summary_step D (i, e, c) r")
    case (Inl err)
    then show ?thesis by (simp add: summary_step_count_shift)
  next
    case (Inr acc)
    obtain i1 e1 c1 where acc: "acc = (i1, e1, c1)" by (cases acc) auto
    with Inr have "summary_step D (i, e, c + k) r = Inr (i1, e1, c1 + k)"
      by (simp add: summary_step_count_shift)
    with Inr acc Cons.IH [of i1 e1 c1] show ?thesis by simp
  qed
qed

lemma summary_loop_append:
  "summary_loop D (xs @ ys) acc =
     (case summary_loop D xs acc of Inl err \<Rightarrow> Inl err | Inr acc' \<Rightarrow> summary_loop D ys acc')"
  by (induction xs arbitrary: acc) (auto split: sum.splits)

text \<open>
  C10: a row of the month that is marked excluded and whose amount text the reader
  accepts is counted in \<open>transaction_count\<close>, and the income total, the expense total
  and the net cash flow are those of the store without the row: the summary with the
  row is the summary without it with the count one higher (and the same exception when
  the summary without it raises one).
\<close>

theorem summary_excluded_row_counted_not_summed:
  assumes "t_is_excluded r"
    and "startswith (k_date r) (month_prefix y m)"
    and "D (k_amount r) = Inr a"
  shows "summary D y m (xs @ r # ys)
           = map_sum id (\<lambda>t. t\<lparr> ms_transaction_count := ms_transaction_count t + 1 \<rparr>)
               (summary D y m (xs @ ys))"
proof -
  let ?in = "\<lambda>r. startswith (k_date r) (month_prefix y m)"
  show ?thesis
  proof (cases "summary_loop D (filter ?in xs) (0, 0, 0)")
    case (Inl err)
    then show ?thesis
      using assms by (simp add: summary_def summary_loop_append)
  next
    case (Inr acc)
    obtain i e c where acc: "acc = (i, e, c)" by (cases acc) auto
    have shift: "summary_loop D (filter ?in ys) (i, e, c + 1)
                   = map_sum id (\<lambda>(i', e', c'). (i', e', c' + 1)) (summary_loop D (filter ?in ys) (i, e, c))"
      by (rule summary_loop_count_shift)
    have without: "summary_loop D (filter ?in (xs @ ys)) (0, 0, 0)
                     = summary_loop D (filter ?in ys) (i, e, c)"
      using Inr acc by (simp add: summary_loop_append)
    have "with": "summary_loop D (filter ?in (xs @ r # ys)) (0, 0, 0)
                     = summary_loop D (filter ?in ys) (i, e, c + 1)"
      using Inr acc assms by (simp add: summary_loop_append summary_step_excluded)
    show ?thesis
      unfolding summary_def without "with" shift
      by (cases "summary_loop D (filter ?in ys) (i, e, c)") auto
  qed
qed

definition ex_excluded_row :: txn where
  "ex_excluded_row = \<lparr> k_date = ''2026-02-10'', k_amount = ''-100'', k_description = ''desc'',
      k_method = ''method'', k_direction = ''expense'', k_raw_category = ''food'',
      t_id = ''r1'', t_merchant = ''merchant'', t_memo = [], t_is_excluded = True,
      t_import_fingerprint = None \<rparr>"

definition ex_pay_row :: txn where
  "ex_pay_row = \<lparr> k_date = ''2026-02-03'', k_amount = ''300'', k_description = ''pay'',
      k_method = ''bank'', k_direction = ''income'', k_raw_category = ''salary'',
      t_id = ''r2'', t_merchant = ''pay'', t_memo = [], t_is_excluded = False,
      t_import_fingerprint = None \<rparr>"

theorem summary_excluded_row_counted_not_summed_witness:
  "t_is_excluded ex_excluded_row
   \<and> startswith (k_date ex_excluded_row) (month_prefix 2026 2)
   \<and> decimal_literal (k_amount ex_excluded_row) = Inr (- 100)
   \<and> summary decimal_literal 2026 2 ([ex_pay_row] @ [])
        = Inr \<lparr> ms_income = 300, ms_expense = 0, ms_net_cashflow = 300, ms_transaction_count = 1 \<rparr>
   \<and> summary decimal_literal 2026 2 ([ex_pay_row] @ ex_excluded_row # [])
        = Inr \<lparr> ms_income = 300, ms_expense = 0, ms_net_cashflow = 300, ms_transaction_count = 2 \<rparr>"
proof -
  have h1: "t_is_excluded ex_excluded_row" by (simp add: ex_excluded_row_def)
  have h2: "startswith (k_date ex_excluded_row) (month_prefix 2026 2)" by code_simp
  have h3: "decimal_literal (k_amount ex_excluded_row) = Inr (- 100)" by code_simp
  have h4: "summary decimal_literal 2026 2 ([ex_pay_row] @ [])
        = Inr \<lparr> ms_income = 300, ms_expense = 0, ms_net_cashflow = 300, ms_transaction_count = 1 \<rparr>"
    by code_simp
  show ?thesis
    using summary_excluded_row_counted_not_summed
            [where r = ex_excluded_row and y = 2026 and m = 2 and D = decimal_literal
               and a = "- 100" and xs = "[ex_pay_row]" and ys = "[]"] h1 h2 h3 h4
    by simp
qed

section \<open>The update by snapshot and the fingerprint\<close>

lemma build_updates_no_fingerprint:
  "build_transaction_updates payload direction = Inr u \<Longrightarrow> u_import_fingerprint u = None"
  by (auto simp: build_transaction_updates_def split: if_splits)

lemma set_columns_keeps_fingerprint:
  "u_import_fingerprint u = None \<Longrightarrow> t_import_fingerprint (set_columns u r) = t_import_fingerprint r"
  by (simp add: set_columns_def)

text \<open>
  The update by snapshot never writes \<open>import_fingerprint\<close>: whatever it changes, every
  row keeps the fingerprint it had.
\<close>

lemma apply_update_keeps_fingerprints:
  "u_import_fingerprint u = None \<Longrightarrow>
     map t_import_fingerprint (fst (apply_transaction_update i u direction s))
       = map t_import_fingerprint s"
  by (simp add: apply_transaction_update_def set_columns_keeps_fingerprint comp_def)

lemma update_by_match_keeps_fingerprints:
  assumes "update_transaction_by_match D direction original updated s = Inr s'"
  shows "map t_import_fingerprint s' = map t_import_fingerprint s"
proof (cases "build_transaction_updates updated direction")
  case (Inl e)
  with assms show ?thesis by (simp add: update_transaction_by_match_def)
next
  case (Inr u)
  then have nofp: "u_import_fingerprint u = None"
    by (rule build_updates_no_fingerprint)
  from assms Inr have "\<exists>ids. s' = fst (apply_transaction_update (ids ! 0) u direction s)"
    by (auto simp: update_transaction_by_match_def split: if_splits prod.splits sum.splits)
       (metis fst_conv)
  then obtain ids where "s' = fst (apply_transaction_update (ids ! 0) u direction s)" ..
  then show ?thesis
    using nofp by (simp add: apply_update_keeps_fingerprints)
qed

definition ex_lunch_row :: txn where
  "ex_lunch_row = \<lparr> k_date = ''2026-02-10'', k_amount = ''-10000'', k_description = ''desc'',
      k_method = ''card'', k_direction = ''expense'', k_raw_category = ''food'',
      t_id = ''r1'', t_merchant = ''desc'', t_memo = [], t_is_excluded = False,
      t_import_fingerprint = None \<rparr>"

definition ex_lunch_original :: match_request where
  "ex_lunch_original = \<lparr> o_date = ''2026-02-10'', o_category = ''food'', o_description = ''desc'',
      o_amount = 10000, o_method = ''card'', o_excluded = False \<rparr>"

definition ex_lunch_updated :: update_request where
  "ex_lunch_updated = \<lparr> p_date = None, p_category = None, p_description = Some ''lunch'',
      p_amount = None, p_method = None, p_excluded = None \<rparr>"

text \<open>
  C4 fails on the code. The stored row carries the fingerprint of its content
  (\<open>6570...\<close>); the update by snapshot finds it as the one match and sets description
  and merchant to \<open>lunch\<close>, and the row keeps the fingerprint of the old content,
  which is not the fingerprint of the new content (\<open>7078...\<close>). The update by id, on
  the same row and payload, stores the fingerprint of the new content.
\<close>

theorem update_by_match_leaves_stale_fingerprint:
  "transaction_fingerprint base256 ex_lunch_row
     = ''657078657c647261637c637365647c30303030312d7c30312d32302d36323032''
   \<and> update_transaction_by_match decimal_literal ''expense'' ex_lunch_original ex_lunch_updated
       [ex_lunch_row\<lparr> t_import_fingerprint :=
          Some ''657078657c647261637c637365647c30303030312d7c30312d32302d36323032'' \<rparr>]
     = Inr [ex_lunch_row\<lparr> k_description := ''lunch'', t_merchant := ''lunch'',
              t_import_fingerprint :=
                Some ''657078657c647261637c637365647c30303030312d7c30312d32302d36323032'' \<rparr>]
   \<and> transaction_fingerprint base256
         (ex_lunch_row\<lparr> k_description := ''lunch'', t_merchant := ''lunch'' \<rparr>)
     = ''7078657c647261637c68636e756c7c30303030312d7c30312d32302d36323032''
   \<and> update_transaction base256 ''expense'' ''r1'' ex_lunch_updated
       [ex_lunch_row\<lparr> t_import_fingerprint :=
          Some ''657078657c647261637c637365647c30303030312d7c30312d32302d36323032'' \<rparr>]
     = Inr [ex_lunch_row\<lparr> k_description := ''lunch'', t_merchant := ''lunch'',
              t_import_fingerprint :=
                Some ''7078657c647261637c68636e756c7c30303030312d7c30312d32302d36323032'' \<rparr>]"
proof (intro conjI)
  show "transaction_fingerprint base256 ex_lunch_row
     = ''657078657c647261637c637365647c30303030312d7c30312d32302d36323032''"
    by code_simp
  show "update_transaction_by_match decimal_literal ''expense'' ex_lunch_original ex_lunch_updated
       [ex_lunch_row\<lparr> t_import_fingerprint :=
          Some ''657078657c647261637c637365647c30303030312d7c30312d32302d36323032'' \<rparr>]
     = Inr [ex_lunch_row\<lparr> k_description := ''lunch'', t_merchant := ''lunch'',
              t_import_fingerprint :=
                Some ''657078657c647261637c637365647c30303030312d7c30312d32302d36323032'' \<rparr>]"
    by code_simp
  show "transaction_fingerprint base256
         (ex_lunch_row\<lparr> k_description := ''lunch'', t_merchant := ''lunch'' \<rparr>)
     = ''7078657c647261637c68636e756c7c30303030312d7c30312d32302d36323032''"
    by code_simp
  show "update_transaction base256 ''expense'' ''r1'' ex_lunch_updated
       [ex_lunch_row\<lparr> t_import_fingerprint :=
          Some ''657078657c647261637c637365647c30303030312d7c30312d32302d36323032'' \<rparr>]
     = Inr [ex_lunch_row\<lparr> k_description := ''lunch'', t_merchant := ''lunch'',
              t_import_fingerprint :=
                Some ''7078657c647261637c68636e756c7c30303030312d7c30312d32302d36323032'' \<rparr>]"
    by code_simp
qed

section \<open>The loaded dictionaries\<close>

lemma register_keys_fields [simp]:
  "db (register_keys row i st) = db st"
  "seen_fingerprints (register_keys row i st) = seen_fingerprints st"
  "skipped_duplicates (register_keys row i st) = skipped_duplicates st"
  by (simp_all add: register_keys_def Let_def)

lemma register_keys_maps:
  "fallback_with_method_map (register_keys row i st) k =
     fallback_with_method_map st k @ (if transaction_fallback_key_with_method row = k then [i] else [])"
  "fallback_map (register_keys row i st) k2 =
     fallback_map st k2 @ (if transaction_fallback_key row = k2 then [i] else [])"
  "fallback_without_amount_map (register_keys row i st) k3 =
     fallback_without_amount_map st k3
       @ (if transaction_fallback_key_without_amount row = k3 then [i] else [])"
  by (simp_all add: register_keys_def Let_def)

lemma foldl_register_fields:
  "db (foldl (\<lambda>st r. register_keys r (t_id r) st) st0 rs) = db st0"
  "seen_fingerprints (foldl (\<lambda>st r. register_keys r (t_id r) st) st0 rs) = seen_fingerprints st0"
  "skipped_duplicates (foldl (\<lambda>st r. register_keys r (t_id r) st) st0 rs) = skipped_duplicates st0"
  by (induction rs arbitrary: st0) simp_all

lemma foldl_register_maps:
  "fallback_with_method_map (foldl (\<lambda>st r. register_keys r (t_id r) st) st0 rs) k =
     fallback_with_method_map st0 k
       @ map t_id (filter (\<lambda>r. transaction_fallback_key_with_method r = k) rs)"
  "fallback_map (foldl (\<lambda>st r. register_keys r (t_id r) st) st0 rs) k2 =
     fallback_map st0 k2 @ map t_id (filter (\<lambda>r. transaction_fallback_key r = k2) rs)"
  "fallback_without_amount_map (foldl (\<lambda>st r. register_keys r (t_id r) st) st0 rs) k3 =
     fallback_without_amount_map st0 k3
       @ map t_id (filter (\<lambda>r. transaction_fallback_key_without_amount r = k3) rs)"
  by (induction rs arbitrary: st0) (simp_all add: register_keys_maps)

text \<open>
  After loading, a dictionary holds under a key the ids of the stored rows with that
  key, in the order of the rows.
\<close>

lemma load_existing_fields:
  "db (load_existing s) = s"
  "skipped_duplicates (load_existing s) = 0"
  "fallback_with_method_map (load_existing s) k =
     map t_id (filter (\<lambda>r. transaction_fallback_key_with_method r = k) s)"
  "fallback_map (load_existing s) k2 = map t_id (filter (\<lambda>r. transaction_fallback_key r = k2) s)"
  "fallback_without_amount_map (load_existing s) k3 =
     map t_id (filter (\<lambda>r. transaction_fallback_key_without_amount r = k3) s)"
  by (simp_all add: load_existing_def foldl_register_fields foldl_register_maps)

section \<open>A batch of one row on the empty store\<close>

definition ex_no_replace :: directive where
  "ex_no_replace = \<lparr> replace_month = False, year = None, month = None \<rparr>"

lemma load_existing_empty:
  "seen_fingerprints (load_existing []) = {}"
  by (simp add: load_existing_def)

lemma import_row_on_empty:
  "import_row Hd row (load_existing []) =
     Inr (register_keys row (c_id row)
            ((load_existing [])
               \<lparr> db := [new_txn row (strip (k_raw_category row) \<in> AUTO_EXCLUDED_CATEGORIES)
                                 (transaction_fingerprint Hd row)],
                 seen_fingerprints := {transaction_fingerprint Hd row} \<rparr>))"
  by (simp add: import_row_def match_existing_def load_existing_fields load_existing_empty Let_def)

text \<open>
  Without a replacement directive, a batch of one candidate on the empty store inserts
  the candidate: one row imported, none skipped, none deleted.
\<close>

lemma import_single_into_empty:
  assumes "\<not> replace_month dir"
  shows "import_transactions Hd I dir [row] [] =
           ([new_txn row (strip (k_raw_category row) \<in> AUTO_EXCLUDED_CATEGORIES)
                     (transaction_fingerprint Hd row)],
            Inr \<lparr> imported = 1, skipped = 0, deleted = 0 \<rparr>)"
  using assms
  by (simp add: import_transactions_def import_phase_def import_row_on_empty load_existing_fields)

lemma digit_char_simps:
  "digit_char 0 = CHR ''0''" "digit_char 1 = CHR ''1''" "digit_char 2 = CHR ''2''"
  "digit_char 3 = CHR ''3''" "digit_char 4 = CHR ''4''" "digit_char 5 = CHR ''5''"
  "digit_char 6 = CHR ''6''" "digit_char 7 = CHR ''7''" "digit_char 8 = CHR ''8''"
  "digit_char 9 = CHR ''9''" "digit_char (Suc 0) = CHR ''1''"
  by code_simp+

section \<open>The cascade on ambiguous levels\<close>

definition ex_twin_a :: txn where
  "ex_twin_a = \<lparr> k_date = ''2026-02-15'', k_amount = ''-50'', k_description = ''cafe'',
      k_method = ''card'', k_direction = ''expense'', k_raw_category = ''food'',
      t_id = ''a'', t_merchant = ''cafe'', t_memo = [], t_is_excluded = False,
      t_import_fingerprint = None \<rparr>"

definition ex_twin_b :: txn where
  "ex_twin_b = \<lparr> k_date = ''2026-02-15'', k_amount = ''-50'', k_description = ''cafe'',
      k_method = ''card'', k_direction = ''expense'', k_raw_category = ''drinks'',
      t_id = ''b'', t_merchant = ''cafe'', t_memo = [], t_is_excluded = False,
      t_import_fingerprint = None \<rparr>"

definition ex_twin_cand :: cand where
  "ex_twin_cand = \<lparr> k_date = ''2026-02-15'', k_amount = ''-50'', k_description = ''cafe'',
      k_method = ''card'', k_direction = ''expense'', k_raw_category = ''snack'',
      c_id = ''n'', c_merchant = ''cafe'', c_memo = [] \<rparr>"

text \<open>
  A row of a cleaned file that carries the id of a stored row: \<open>_normalize_cleaned_row\<close>
  takes the id from the file (line 202).
\<close>

definition ex_twin_clash_row :: raw_row where
  "ex_twin_clash_row = [''id'' \<mapsto> ''a'', ''date'' \<mapsto> ''2026-02-15'', ''amount'' \<mapsto> ''-50'',
      ''description'' \<mapsto> ''cafe'', ''method'' \<mapsto> ''card'', ''direction'' \<mapsto> ''expense'',
      ''raw_category'' \<mapsto> ''snack'']"

definition ex_twin_clash :: cand where
  "ex_twin_clash = \<lparr> k_date = ''2026-02-15'', k_amount = ''-50'', k_description = ''cafe'',
      k_method = ''card'', k_direction = ''expense'', k_raw_category = ''snack'',
      c_id = ''a'', c_merchant = ''cafe'', c_memo = [] \<rparr>"

lemma ex_twin_seen:
  "seen_fingerprints (load_existing [ex_twin_a, ex_twin_b]) = {}"
  by (simp add: load_existing_def foldl_register_fields ex_twin_a_def ex_twin_b_def)

lemma ex_twin_levels:
  "c \<in> {ex_twin_cand, ex_twin_clash} \<Longrightarrow>
     fallback_with_method_map (load_existing [ex_twin_a, ex_twin_b])
        (transaction_fallback_key_with_method c) = [''a'', ''b'']
     \<and> fallback_map (load_existing [ex_twin_a, ex_twin_b]) (transaction_fallback_key c) = [''a'', ''b'']
     \<and> fallback_without_amount_map (load_existing [ex_twin_a, ex_twin_b])
        (transaction_fallback_key_without_amount c) = [''a'', ''b'']"
  by (auto simp: load_existing_fields transaction_fallback_key_with_method_def
        transaction_fallback_key_def transaction_fallback_key_without_amount_def
        ex_twin_a_def ex_twin_b_def ex_twin_cand_def ex_twin_clash_def)

text \<open>
  C3, as stated, fails. Two stored rows share every fallback key of the candidate, the
  candidate's fingerprint is not stored, and no level of the cascade has exactly one
  candidate; the candidate carries the id of a stored row. The \<open>INSERT\<close> raises
  \<open>IntegrityError\<close>: the row is not inserted (and not merged), and the batch ends with
  the store as it was.
\<close>

theorem ambiguous_insert_integrity_counterexample:
  "normalize_cleaned_row decimal_literal ''u1'' ex_twin_clash_row = Inr (Some ex_twin_clash)
   \<and> length (fallback_with_method_map (load_existing [ex_twin_a, ex_twin_b])
               (transaction_fallback_key_with_method ex_twin_clash)) = 2
   \<and> length (fallback_map (load_existing [ex_twin_a, ex_twin_b])
               (transaction_fallback_key ex_twin_clash)) = 2
   \<and> length (fallback_without_amount_map (load_existing [ex_twin_a, ex_twin_b])
               (transaction_fallback_key_without_amount ex_twin_clash)) = 2
   \<and> transaction_fingerprint base256 ex_twin_clash
        \<notin> seen_fingerprints (load_existing [ex_twin_a, ex_twin_b])
   \<and> import_row base256 ex_twin_clash (load_existing [ex_twin_a, ex_twin_b]) = Inl IntegrityError
   \<and> import_transactions base256 int_literal ex_no_replace [ex_twin_clash] [ex_twin_a, ex_twin_b]
        = ([ex_twin_a, ex_twin_b], Inl IntegrityError)"
proof -
  have n: "normalize_cleaned_row decimal_literal ''u1'' ex_twin_clash_row = Inr (Some ex_twin_clash)"
    by code_simp
  have ids: "c_id ex_twin_clash \<in> t_id ` set [ex_twin_a, ex_twin_b]"
    by (simp add: ex_twin_clash_def ex_twin_a_def)
  have r: "import_row base256 ex_twin_clash (load_existing [ex_twin_a, ex_twin_b]) = Inl IntegrityError"
    using ex_twin_levels [of ex_twin_clash] ex_twin_seen ids
    by (simp add: import_row_def match_existing_def Let_def load_existing_fields)
  have b: "import_transactions base256 int_literal ex_no_replace [ex_twin_clash] [ex_twin_a, ex_twin_b]
        = ([ex_twin_a, ex_twin_b], Inl IntegrityError)"
    using r by (simp add: import_transactions_def import_phase_def ex_no_replace_def)
  show ?thesis
    using n r b ex_twin_levels [of ex_twin_clash] ex_twin_seen by simp
qed

text \<open>
  C3, amended: a level of the cascade whose candidate list has no element, or two or
  more, gives no match and the next level decides; when no level has exactly one
  candidate and the fingerprint is not among the seen ones, no stored row is matched,
  and the row is inserted as a new row when its id is not yet stored: the store is the
  old store followed by the row with the candidate's columns, the exclusion mark of its
  category and its fingerprint, and the row is not counted as skipped. When its id is
  already stored the insert raises \<open>IntegrityError\<close>.
\<close>

theorem ambiguous_levels_never_match:
  "(length (fallback_with_method_map st (transaction_fallback_key_with_method row)) \<noteq> 1 \<longrightarrow>
      match_existing st row =
        (if length (fallback_map st (transaction_fallback_key row)) = 1
         then Some (fallback_map st (transaction_fallback_key row) ! 0)
         else if length (fallback_without_amount_map st (transaction_fallback_key_without_amount row)) = 1
         then Some (fallback_without_amount_map st (transaction_fallback_key_without_amount row) ! 0)
         else None))
   \<and> (length (fallback_with_method_map st (transaction_fallback_key_with_method row)) \<noteq> 1
       \<and> length (fallback_map st (transaction_fallback_key row)) \<noteq> 1
       \<and> length (fallback_without_amount_map st (transaction_fallback_key_without_amount row)) \<noteq> 1
       \<and> transaction_fingerprint Hd row \<notin> seen_fingerprints st \<longrightarrow>
         match_existing st row = None
         \<and> (c_id row \<notin> t_id ` set (db st) \<longrightarrow>
              (\<exists>st'. import_row Hd row st = Inr st'
                 \<and> db st' = db st @
                     [\<lparr> k_date = k_date row, k_amount = k_amount row,
                        k_description = k_description row, k_method = k_method row,
                        k_direction = k_direction row, k_raw_category = k_raw_category row,
                        t_id = c_id row, t_merchant = c_merchant row, t_memo = c_memo row,
                        t_is_excluded = (strip (k_raw_category row) \<in> AUTO_EXCLUDED_CATEGORIES),
                        t_import_fingerprint = Some (transaction_fingerprint Hd row) \<rparr>]
                 \<and> skipped_duplicates st' = skipped_duplicates st))
         \<and> (c_id row \<in> t_id ` set (db st) \<longrightarrow> import_row Hd row st = Inl IntegrityError))"
  by (simp add: match_existing_def import_row_def new_txn_def Let_def)

theorem ambiguous_levels_never_match_witness:
  "length (fallback_with_method_map (load_existing [ex_twin_a, ex_twin_b])
             (transaction_fallback_key_with_method ex_twin_cand)) = 2
   \<and> length (fallback_map (load_existing [ex_twin_a, ex_twin_b])
             (transaction_fallback_key ex_twin_cand)) = 2
   \<and> length (fallback_without_amount_map (load_existing [ex_twin_a, ex_twin_b])
             (transaction_fallback_key_without_amount ex_twin_cand)) = 2
   \<and> transaction_fingerprint base256 ex_twin_cand \<notin> seen_fingerprints (load_existing [ex_twin_a, ex_twin_b])
   \<and> c_id ex_twin_cand \<notin> t_id ` set (db (load_existing [ex_twin_a, ex_twin_b]))
   \<and> match_existing (load_existing [ex_twin_a, ex_twin_b]) ex_twin_cand = None
   \<and> (\<exists>st'. import_row base256 ex_twin_cand (load_existing [ex_twin_a, ex_twin_b]) = Inr st'
         \<and> db st' = [ex_twin_a, ex_twin_b,
               \<lparr> k_date = ''2026-02-15'', k_amount = ''-50'', k_description = ''cafe'',
                 k_method = ''card'', k_direction = ''expense'', k_raw_category = ''snack'',
                 t_id = ''n'', t_merchant = ''cafe'', t_memo = [], t_is_excluded = False,
                 t_import_fingerprint = Some (transaction_fingerprint base256 ex_twin_cand) \<rparr>]
         \<and> skipped_duplicates st' = 0)
   \<and> c_id ex_twin_clash \<in> t_id ` set (db (load_existing [ex_twin_a, ex_twin_b]))
   \<and> match_existing (load_existing [ex_twin_a, ex_twin_b]) ex_twin_clash = None"
proof -
  let ?st = "load_existing [ex_twin_a, ex_twin_b]"
  have fresh: "c_id ex_twin_cand \<notin> t_id ` set (db ?st)"
    by (simp add: load_existing_fields ex_twin_a_def ex_twin_b_def ex_twin_cand_def)
  have stored: "c_id ex_twin_clash \<in> t_id ` set (db ?st)"
    by (simp add: load_existing_fields ex_twin_a_def ex_twin_clash_def)
  have excl: "strip (k_raw_category ex_twin_cand) \<notin> AUTO_EXCLUDED_CATEGORIES"
    by code_simp
  have fields: "k_date ex_twin_cand = ''2026-02-15''" "k_amount ex_twin_cand = ''-50''"
    "k_description ex_twin_cand = ''cafe''" "k_method ex_twin_cand = ''card''"
    "k_direction ex_twin_cand = ''expense''" "k_raw_category ex_twin_cand = ''snack''"
    "c_id ex_twin_cand = ''n''" "c_merchant ex_twin_cand = ''cafe''" "c_memo ex_twin_cand = []"
    by (simp_all add: ex_twin_cand_def)
  have a: "match_existing ?st ex_twin_cand = None
    \<and> (\<exists>st'. import_row base256 ex_twin_cand ?st = Inr st'
         \<and> db st' = [ex_twin_a, ex_twin_b,
               \<lparr> k_date = ''2026-02-15'', k_amount = ''-50'', k_description = ''cafe'',
                 k_method = ''card'', k_direction = ''expense'', k_raw_category = ''snack'',
                 t_id = ''n'', t_merchant = ''cafe'', t_memo = [], t_is_excluded = False,
                 t_import_fingerprint = Some (transaction_fingerprint base256 ex_twin_cand) \<rparr>]
         \<and> skipped_duplicates st' = 0)"
    using ambiguous_levels_never_match [of ?st ex_twin_cand base256]
      ex_twin_levels [of ex_twin_cand] ex_twin_seen fresh excl load_existing_fields(1,2) [of "[ex_twin_a, ex_twin_b]"]
    by (simp add: fields)
  have b: "match_existing ?st ex_twin_clash = None"
    using ambiguous_levels_never_match [of ?st ex_twin_clash base256]
      ex_twin_levels [of ex_twin_clash] ex_twin_seen stored
    by simp
  show ?thesis
    using a b fresh stored ex_twin_levels [of ex_twin_cand] ex_twin_seen by simp
qed

section \<open>Rejection of rows by the normalizers\<close>































section \<open>Sign of the amount and direction\<close>

text \<open>
  The amount column holds \<open>str\<close> of an integer. A row is sign-consistent when it is an
  income row with an amount of at least 0 or an expense row with an amount of at most 0.
\<close>

definition sign_consistent :: "'a keyed_scheme \<Rightarrow> bool" where
  "sign_consistent r =
     (\<exists>a. k_amount r = str_int a
         \<and> ((k_direction r = ''income'' \<and> 0 \<le> a) \<or> (k_direction r = ''expense'' \<and> a \<le> 0)))"

definition store_consistent :: "txn list \<Rightarrow> bool" where
  "store_consistent s = list_all sign_consistent s"

lemma sign_consistent_fields:
  "k_amount r' = k_amount r \<Longrightarrow> k_direction r' = k_direction r \<Longrightarrow>
     sign_consistent r' = sign_consistent r"
  by (simp add: sign_consistent_def)

lemma sign_consistentI:
  "k_amount r = str_int a \<Longrightarrow>
     (k_direction r = ''income'' \<and> 0 \<le> a) \<or> (k_direction r = ''expense'' \<and> a \<le> 0) \<Longrightarrow>
     sign_consistent r"
  unfolding sign_consistent_def by blast

lemma sign_consistent_abs:
  "k_direction r = ''income'' \<Longrightarrow> k_amount r = str_int \<bar>a\<bar> \<Longrightarrow> sign_consistent r"
  "k_direction r = ''expense'' \<Longrightarrow> k_amount r = str_int (- \<bar>a\<bar>) \<Longrightarrow> sign_consistent r"
  by (rule sign_consistentI [of r "\<bar>a\<bar>"], simp, simp)
     (rule sign_consistentI [of r "- \<bar>a\<bar>"], simp, simp)

lemma normalize_cleaned_row_sign:
  assumes "normalize_cleaned_row D u row = Inr (Some c)"
  shows "sign_consistent c"
proof -
  from assms obtain amount where p: "parse_amount_to_signed_int D (row ''amount'') = Inr (Some amount)"
    by (auto simp: normalize_cleaned_row_def Let_def split: option.splits if_splits sum.splits)
  define d0 where "d0 = lower (strip (or_else (row ''direction'') []))"
  define dir where "dir = (if d0 \<notin> {''income'', ''expense''}
                            then (if amount \<ge> 0 then ''income'' else ''expense'') else d0)"
  from assms p have c: "k_direction c = dir"
      "k_amount c = str_int (if dir = ''income'' then \<bar>amount\<bar> else - \<bar>amount\<bar>)"
    by (auto simp: normalize_cleaned_row_def Let_def d0_def dir_def split: if_splits)
  have "dir = ''income'' \<or> dir = ''expense''"
    by (auto simp: dir_def)
  then show ?thesis
  proof
    assume "dir = ''income''"
    with c show ?thesis by (auto intro: sign_consistent_abs(1) [of c amount])
  next
    assume "dir = ''expense''"
    with c show ?thesis by (auto intro: sign_consistent_abs(2) [of c amount])
  qed
qed

lemma normalize_tsv_row_sign:
  assumes "normalize_tsv_row D u row = Inr (Some c)"
  shows "sign_consistent c"
proof -
  let ?cell = "Some (filter (\<lambda>c. c \<noteq> CHR '','') (or_else (row col_amount) []))"
  from assms obtain amount where p: "parse_amount_to_signed_int D ?cell = Inr (Some amount)"
    by (auto simp: normalize_tsv_row_def Let_def split: option.splits if_splits sum.splits)
  define t where "t = strip (or_else (row col_type) [])"
  define dir where "dir = (if t = ko_expense then ''expense'' else if t = ko_income then ''income''
                            else if amount \<ge> 0 then ''income'' else ''expense'')"
  from assms p have c: "k_direction c = dir"
      "k_amount c = str_int (if dir = ''income'' then \<bar>amount\<bar> else - \<bar>amount\<bar>)"
    by (auto simp: normalize_tsv_row_def Let_def t_def dir_def type_to_direction_cases
             split: if_splits)
  have "dir = ''income'' \<or> dir = ''expense''"
    by (auto simp: dir_def)
  then show ?thesis
  proof
    assume "dir = ''income''"
    with c show ?thesis by (auto intro: sign_consistent_abs(1) [of c amount])
  next
    assume "dir = ''expense''"
    with c show ?thesis by (auto intro: sign_consistent_abs(2) [of c amount])
  qed
qed

lemma import_row_sign:
  assumes "store_consistent (db st)" and "sign_consistent row" and "import_row Hd row st = Inr st'"
  shows "store_consistent (db st')"
proof -
  have new: "sign_consistent (new_txn row e f)" for e f
    using assms(2) by (simp add: sign_consistent_def new_txn_def)
  have upd: "sign_consistent (r\<lparr> t_import_fingerprint := f \<rparr>) = sign_consistent r" for r :: txn and f
    by (simp add: sign_consistent_def)
  from assms(1,3) show ?thesis
    by (auto simp: import_row_def Let_def store_consistent_def list_all_iff new upd
             split: if_splits option.splits)
qed

lemma import_rows_sign:
  "store_consistent (db st) \<Longrightarrow> list_all sign_consistent rows \<Longrightarrow>
     import_rows Hd rows st = Inr st' \<Longrightarrow> store_consistent (db st')"
proof (induction rows arbitrary: st)
  case Nil
  then show ?case by simp
next
  case (Cons row rows)
  from Cons.prems(3) obtain st1 where
    s1: "import_row Hd row st = Inr st1" and s2: "import_rows Hd rows st1 = Inr st'"
    by (auto split: sum.splits)
  from Cons.prems(1,2) s1 have "store_consistent (db st1)"
    by (auto intro: import_row_sign)
  with Cons.IH [of st1] Cons.prems(2) s2 show ?case by simp
qed

lemma import_phase_sign:
  assumes "store_consistent s0" and "list_all sign_consistent rows"
  shows "store_consistent (fst (import_phase Hd rows n s0))"
proof (cases "import_rows Hd rows (load_existing s0)")
  case (Inl e)
  with assms(1) show ?thesis by (simp add: import_phase_def)
next
  case (Inr st)
  from assms have "store_consistent (db st)"
    using import_rows_sign [of "load_existing s0" rows Hd st] Inr
    by (simp add: load_existing_fields)
  with Inr show ?thesis by (simp add: import_phase_def)
qed

lemma import_transactions_sign:
  assumes "store_consistent s" and "list_all sign_consistent rows"
  shows "store_consistent (fst (import_transactions Hd I dir rows s))"
proof -
  have filt: "store_consistent (filter p s)" for p
    using assms(1) by (auto simp: store_consistent_def list_all_iff)
  show ?thesis
    using assms filt
    by (simp add: import_transactions_def Let_def import_phase_sign split: sum.splits prod.splits)
qed

lemma create_transaction_sign:
  assumes "store_consistent s" and "create_transaction Hd u payload s = Inr s'"
  shows "store_consistent s'"
proof -
  let ?a = "if cr_direction payload = ''income'' then \<bar>cr_amount payload\<bar> else - \<bar>cr_amount payload\<bar>"
  from assms(2) obtain r where s': "s' = s @ [r]" and am: "k_amount r = str_int ?a"
    and dir: "k_direction r = cr_direction payload"
    and d2: "cr_direction payload = ''income'' \<or> cr_direction payload = ''expense''"
    by (auto simp: create_transaction_def Let_def split: if_splits)
  have "sign_consistent r"
    using am dir d2 by (intro sign_consistentI [of r ?a]) auto
  with assms(1) s' show ?thesis by (simp add: store_consistent_def)
qed

lemma build_updates_amount:
  "build_transaction_updates payload direction = Inr u \<Longrightarrow>
     u_amount u = map_option (\<lambda>a. str_int (if direction = ''expense'' then - \<bar>a\<bar> else \<bar>a\<bar>))
                    (p_amount payload)"
  by (auto simp: build_transaction_updates_def split: if_splits)

lemma set_columns_keyed:
  "k_amount (set_columns u r) = get_or (u_amount u) (k_amount r)"
  "k_direction (set_columns u r) = k_direction r"
  by (simp_all add: set_columns_def)

lemma set_columns_sign:
  assumes b: "build_transaction_updates payload direction = Inr u"
    and d: "k_direction r = direction" and sc: "sign_consistent r"
  shows "sign_consistent (set_columns (u\<lparr> u_import_fingerprint := f \<rparr>) r)"
proof (cases "p_amount payload")
  case None
  then have "u_amount u = None"
    using build_updates_amount [OF b] by simp
  then have "k_amount (set_columns (u\<lparr> u_import_fingerprint := f \<rparr>) r) = k_amount r"
    by (simp add: set_columns_keyed get_or_def)
  then show ?thesis
    using sc sign_consistent_fields [of "set_columns (u\<lparr> u_import_fingerprint := f \<rparr>) r" r]
    by (simp add: set_columns_keyed)
next
  case (Some a)
  then have "u_amount u = Some (str_int (if direction = ''expense'' then - \<bar>a\<bar> else \<bar>a\<bar>))"
    using build_updates_amount [OF b] by simp
  then have am: "k_amount (set_columns (u\<lparr> u_import_fingerprint := f \<rparr>) r)
                   = str_int (if direction = ''expense'' then - \<bar>a\<bar> else \<bar>a\<bar>)"
    by (simp add: set_columns_keyed get_or_def)
  have dir: "k_direction (set_columns (u\<lparr> u_import_fingerprint := f \<rparr>) r) = direction"
    using d by (simp add: set_columns_keyed)
  from d sc have "direction = ''income'' \<or> direction = ''expense''"
    unfolding sign_consistent_def by blast
  then show ?thesis
  proof
    assume "direction = ''income''"
    with am dir show ?thesis
      by (auto intro: sign_consistent_abs(1) [of _ a])
  next
    assume "direction = ''expense''"
    with am dir show ?thesis
      by (auto intro: sign_consistent_abs(2) [of _ a])
  qed
qed

lemma apply_update_sign:
  assumes "build_transaction_updates payload direction = Inr u" and "store_consistent s"
  shows "store_consistent (fst (apply_transaction_update i (u\<lparr> u_import_fingerprint := f \<rparr>) direction s))"
  using assms
  by (auto simp: apply_transaction_update_def store_consistent_def list_all_iff
           intro: set_columns_sign)

lemma update_transaction_sign:
  assumes "store_consistent s" and "update_transaction Hd direction i payload s = Inr s'"
  shows "store_consistent s'"
proof (cases "build_transaction_updates payload direction")
  case (Inl e)
  with assms(2) show ?thesis by (simp add: update_transaction_def)
next
  case (Inr u)
  from assms(2) Inr obtain f where
    "s' = fst (apply_transaction_update i (u\<lparr> u_import_fingerprint := f \<rparr>) direction s)"
    by (auto simp: update_transaction_def Let_def apply_transaction_update_def
             split: if_splits option.splits)
  then show ?thesis
    using apply_update_sign [OF Inr assms(1)] by simp
qed

lemma update_by_match_sign:
  assumes "store_consistent s" and "update_transaction_by_match D direction original updated s = Inr s'"
  shows "store_consistent s'"
proof (cases "build_transaction_updates updated direction")
  case (Inl e)
  with assms(2) show ?thesis by (simp add: update_transaction_by_match_def)
next
  case (Inr u)
  then have "u_import_fingerprint u = None"
    by (rule build_updates_no_fingerprint)
  then have u: "u\<lparr> u_import_fingerprint := None \<rparr> = u" by simp
  from assms(2) Inr have "\<exists>ids. s' = fst (apply_transaction_update (ids ! 0) u direction s)"
    by (auto simp: update_transaction_by_match_def split: if_splits prod.splits sum.splits)
       (metis fst_conv)
  then obtain ids where "s' = fst (apply_transaction_update (ids ! 0) u direction s)" ..
  then show ?thesis
    using apply_update_sign [OF Inr assms(1), of _ None] u by simp
qed

lemma normalized_rows_of_sign:
  "normalized_rows_of D b file_rows = Inr cs \<Longrightarrow> list_all sign_consistent cs"
proof (induction file_rows arbitrary: cs)
  case Nil
  then show ?case by simp
next
  case (Cons x file_rows)
  obtain u row where x: "x = (u, row)" by (cases x) auto
  let ?n = "if b then normalize_cleaned_row D u row else normalize_tsv_row D u row"
  from Cons.prems x obtain normalized rest where
    n: "?n = Inr normalized" and r: "normalized_rows_of D b file_rows = Inr rest"
    and cs: "cs = (case normalized of None \<Rightarrow> rest | Some c \<Rightarrow> c # rest)"
    by (auto split: sum.splits split del: if_split)
  from Cons.IH [OF r] have rest: "list_all sign_consistent rest" .
  show ?case
  proof (cases normalized)
    case None
    with cs rest show ?thesis by simp
  next
    case (Some c)
    with n have "sign_consistent c"
      by (cases b) (auto intro: normalize_cleaned_row_sign normalize_tsv_row_sign)
    with Some cs rest show ?thesis by simp
  qed
qed

lemma import_file_sign:
  assumes "store_consistent s"
  shows "store_consistent (fst (import_file D Hd I dir b file_rows s))"
proof (cases "normalized_rows_of D b file_rows")
  case (Inl e)
  with assms show ?thesis by (simp add: import_file_def)
next
  case (Inr cs)
  then have "list_all sign_consistent cs" by (rule normalized_rows_of_sign)
  with assms Inr show ?thesis by (simp add: import_file_def import_transactions_sign)
qed

definition ex_zero_row :: raw_row where
  "ex_zero_row = [''date'' \<mapsto> ''2026-02-15'', ''amount'' \<mapsto> ''0'', ''description'' \<mapsto> ''fee'',
                  ''direction'' \<mapsto> ''expense'']"

definition ex_zero_cand :: cand where
  "ex_zero_cand = \<lparr> k_date = ''2026-02-15'', k_amount = ''0'', k_description = ''fee'',
      k_method = [], k_direction = ''expense'', k_raw_category = ko_unclassified,
      c_id = ''u1'', c_merchant = ''fee'', c_memo = [] \<rparr>"

definition ex_positive_expense_row :: dict_row where
  "ex_positive_expense_row = cells [col_date \<mapsto> ''2026-02-10'', col_time \<mapsto> ''20:48'',
      col_type \<mapsto> ko_expense, col_amount \<mapsto> ''79'', col_content \<mapsto> ''shop'']"

text \<open>
  C6, as stated, fails. The backend normalizer turns a cleaned row of direction
  \<open>expense\<close> and amount 0 into a candidate of amount \<open>0\<close> and direction \<open>expense\<close>,
  and the import stores it: the amount is at least 0 and the direction is not
  \<open>income\<close>. The ledger normalizer keeps the sign of the file: an expense row of amount
  79 is stored with the signed amount 79 and the review flag set.
\<close>

theorem zero_expense_counterexample:
  "normalize_cleaned_row decimal_literal ''u1'' ex_zero_row = Inr (Some ex_zero_cand)
   \<and> k_amount ex_zero_cand = str_int 0
   \<and> k_direction ex_zero_cand = ''expense''
   \<and> map (\<lambda>r. (k_amount r, k_direction r))
        (fst (import_file decimal_literal (\<lambda>_. 0) int_literal ex_no_replace True
                [(''u1'', ex_zero_row)] []))
      = [(''0'', ''expense'')]
   \<and> snd (import_file decimal_literal (\<lambda>_. 0) int_literal ex_no_replace True [(''u1'', ex_zero_row)] [])
      = Inr \<lparr> imported = 1, skipped = 0, deleted = 0 \<rparr>
   \<and> map_sum id (map_option (\<lambda>r. (l_type r, l_signed_amount r, l_review_required r)))
        (normalize_row (\<lambda>_. Some 0) int_literal (\<lambda>_. ''h'') ex_positive_expense_row)
      = Inr (Some (''expense'', 79, True))"
proof -
  have n: "normalize_cleaned_row decimal_literal ''u1'' ex_zero_row = Inr (Some ex_zero_cand)"
    by code_simp
  then have ns: "normalized_rows_of decimal_literal True [(''u1'', ex_zero_row)] = Inr [ex_zero_cand]"
    by simp
  have a: "k_amount ex_zero_cand = str_int 0"
    by code_simp
  have d: "k_direction ex_zero_cand = ''expense''"
    by (simp add: ex_zero_cand_def)
  have i: "import_file decimal_literal (\<lambda>_. 0) int_literal ex_no_replace True [(''u1'', ex_zero_row)] []
     = ([new_txn ex_zero_cand (strip (k_raw_category ex_zero_cand) \<in> AUTO_EXCLUDED_CATEGORIES)
           (transaction_fingerprint (\<lambda>_. 0) ex_zero_cand)],
        Inr \<lparr> imported = 1, skipped = 0, deleted = 0 \<rparr>)"
    using ns by (simp add: import_file_def import_single_into_empty ex_no_replace_def)
  have l: "map_sum id (map_option (\<lambda>r. (l_type r, l_signed_amount r, l_review_required r)))
        (normalize_row (\<lambda>_. Some 0) int_literal (\<lambda>_. ''h'') ex_positive_expense_row)
      = Inr (Some (''expense'', 79, True))"
    by code_simp
  show ?thesis
    using n a d l by (simp add: i new_txn_def ex_zero_cand_def)
qed

text \<open>
  C6, amended: in the backend, every income row has an amount of at least 0 and every
  expense row an amount of at most 0 (a zero amount goes with either direction), and
  every operation that writes rows keeps it so: both normalizers give sign-consistent
  candidates, and the import of a file, the single-row create, the update by id and the
  update by snapshot turn a sign-consistent store into a sign-consistent store.
\<close>

theorem amount_direction_consistency:
  "(normalize_cleaned_row D u row = Inr (Some c) \<longrightarrow> sign_consistent c)
   \<and> (normalize_tsv_row D u rown = Inr (Some cn) \<longrightarrow> sign_consistent cn)
   \<and> (store_consistent s \<longrightarrow>
         store_consistent (fst (import_file D Hd I dir is_cleaned_schema file_rows s)))
   \<and> (store_consistent s \<and> create_transaction Hd u payload s = Inr sa \<longrightarrow> store_consistent sa)
   \<and> (store_consistent s \<and> update_transaction Hd direction i p s = Inr sb \<longrightarrow> store_consistent sb)
   \<and> (store_consistent s \<and> update_transaction_by_match D direction original p s = Inr sc \<longrightarrow>
         store_consistent sc)"
  using normalize_cleaned_row_sign [of D u row c] normalize_tsv_row_sign [of D u rown cn]
    import_file_sign [of s D Hd I dir is_cleaned_schema file_rows]
    create_transaction_sign [of s Hd u payload sa]
    update_transaction_sign [of s Hd direction i p sb]
    update_by_match_sign [of s D direction original p sc]
  by blast

definition ex_tea_native :: raw_row where
  "ex_tea_native = [col_date \<mapsto> ''2026-02-13'', col_type \<mapsto> ko_transfer,
                    col_amount \<mapsto> ''40'', col_content \<mapsto> ''tea'']"

definition ex_tea_cand :: cand where
  "ex_tea_cand = \<lparr> k_date = ''2026-02-13'', k_amount = ''40'', k_description = ''tea'',
      k_method = [], k_direction = ''income'', k_raw_category = ko_unclassified,
      c_id = ''u1'', c_merchant = ''tea'', c_memo = [] \<rparr>"

definition ex_create :: create_request where
  "ex_create = \<lparr> cr_date = ''2026-02-11'', cr_direction = ''income'', cr_category = ''pay'',
      cr_description = ''salary'', cr_amount = 100, cr_method = ''bank'', cr_memo = [],
      cr_excluded = False \<rparr>"

definition ex_amount_edit :: update_request where
  "ex_amount_edit = \<lparr> p_date = None, p_category = None, p_description = None,
      p_amount = Some 600, p_method = None, p_excluded = None \<rparr>"

definition ex_small_row :: txn where
  "ex_small_row = \<lparr> k_date = ''2026-02-10'', k_amount = ''-100'', k_description = ''tea'',
      k_method = ''card'', k_direction = ''expense'', k_raw_category = ''food'',
      t_id = ''r1'', t_merchant = ''tea'', t_memo = [], t_is_excluded = False,
      t_import_fingerprint = None \<rparr>"

definition ex_small_original :: match_request where
  "ex_small_original = \<lparr> o_date = ''2026-02-10'', o_category = ''food'', o_description = ''tea'',
      o_amount = 100, o_method = ''card'', o_excluded = False \<rparr>"

lemma ex_small_row_consistent:
  "store_consistent [ex_small_row]"
proof -
  have "k_amount ex_small_row = str_int (- 100)"
    by (simp add: ex_small_row_def str_int_def digit_char_simps)
  then have "sign_consistent ex_small_row"
    by (rule sign_consistentI) (simp add: ex_small_row_def)
  then show ?thesis
    by (simp add: store_consistent_def)
qed

theorem amount_direction_consistency_witness:
  "normalize_cleaned_row decimal_literal ''u1'' ex_zero_row = Inr (Some ex_zero_cand)
   \<and> sign_consistent ex_zero_cand
   \<and> normalize_tsv_row decimal_literal ''u1'' ex_tea_native = Inr (Some ex_tea_cand)
   \<and> sign_consistent ex_tea_cand
   \<and> store_consistent [ex_small_row]
   \<and> store_consistent (fst (import_file decimal_literal (\<lambda>_. 0) int_literal ex_no_replace True
                              [(''u1'', ex_zero_row)] [ex_small_row]))
   \<and> (\<exists>sa. create_transaction (\<lambda>_. 0) ''u9'' ex_create [ex_small_row] = Inr sa \<and> store_consistent sa)
   \<and> (\<exists>sb. update_transaction (\<lambda>_. 0) ''expense'' ''r1'' ex_amount_edit [ex_small_row] = Inr sb
           \<and> store_consistent sb)
   \<and> (\<exists>sc. update_transaction_by_match decimal_literal ''expense'' ex_small_original ex_amount_edit
             [ex_small_row] = Inr sc \<and> store_consistent sc)"
proof -
  note st = ex_small_row_consistent
  have n1: "normalize_cleaned_row decimal_literal ''u1'' ex_zero_row = Inr (Some ex_zero_cand)"
    by code_simp
  have n2: "normalize_tsv_row decimal_literal ''u1'' ex_tea_native = Inr (Some ex_tea_cand)"
    by code_simp
  have w1: "sign_consistent ex_zero_cand"
    using amount_direction_consistency
            [where D = decimal_literal and u = "''u1''" and row = ex_zero_row and c = ex_zero_cand,
             THEN conjunct1] n1
    by simp
  have w2: "sign_consistent ex_tea_cand"
    using amount_direction_consistency
            [where D = decimal_literal and u = "''u1''" and rown = ex_tea_native and cn = ex_tea_cand,
             THEN conjunct2, THEN conjunct1] n2
    by simp
  have w3: "store_consistent (fst (import_file decimal_literal (\<lambda>_. 0) int_literal ex_no_replace True
                              [(''u1'', ex_zero_row)] [ex_small_row]))"
    using amount_direction_consistency
            [where D = decimal_literal and Hd = "\<lambda>_. 0" and I = int_literal and dir = ex_no_replace
               and is_cleaned_schema = True and file_rows = "[(''u1'', ex_zero_row)]"
               and s = "[ex_small_row]",
             THEN conjunct2, THEN conjunct2, THEN conjunct1] st
    by simp
  have "\<not> isl (create_transaction (\<lambda>_. 0) ''u9'' ex_create [ex_small_row])"
    by code_simp
  then obtain sa where ca: "create_transaction (\<lambda>_. 0) ''u9'' ex_create [ex_small_row] = Inr sa"
    by (cases "create_transaction (\<lambda>_. 0) ''u9'' ex_create [ex_small_row]") auto
  have w4: "store_consistent sa"
    using amount_direction_consistency
            [where Hd = "\<lambda>_. 0" and u = "''u9''" and payload = ex_create and s = "[ex_small_row]"
               and sa = sa,
             THEN conjunct2, THEN conjunct2, THEN conjunct2, THEN conjunct1] st ca
    by simp
  have "\<not> isl (update_transaction (\<lambda>_. 0) ''expense'' ''r1'' ex_amount_edit [ex_small_row])"
    by code_simp
  then obtain sb where
    cb: "update_transaction (\<lambda>_. 0) ''expense'' ''r1'' ex_amount_edit [ex_small_row] = Inr sb"
    by (cases "update_transaction (\<lambda>_. 0) ''expense'' ''r1'' ex_amount_edit [ex_small_row]") auto
  have w5: "store_consistent sb"
    using amount_direction_consistency
            [where Hd = "\<lambda>_. 0" and direction = "''expense''" and i = "''r1''" and p = ex_amount_edit
               and s = "[ex_small_row]" and sb = sb,
             THEN conjunct2, THEN conjunct2, THEN conjunct2, THEN conjunct2, THEN conjunct1] st cb
    by simp
  have "\<not> isl (update_transaction_by_match decimal_literal ''expense'' ex_small_original ex_amount_edit
               [ex_small_row])"
    by code_simp
  then obtain sc where
    cc: "update_transaction_by_match decimal_literal ''expense'' ex_small_original ex_amount_edit
           [ex_small_row] = Inr sc"
    by (cases "update_transaction_by_match decimal_literal ''expense'' ex_small_original ex_amount_edit
                 [ex_small_row]") auto
  have w6: "store_consistent sc"
    using amount_direction_consistency
            [where D = decimal_literal and direction = "''expense''" and original = ex_small_original
               and p = ex_amount_edit and s = "[ex_small_row]" and sc = sc,
             THEN conjunct2, THEN conjunct2, THEN conjunct2, THEN conjunct2, THEN conjunct2] st cc
    by simp
  show ?thesis
    using n1 n2 st w1 w2 w3 w4 w5 w6 ca cb cc by simp
qed

section \<open>Atomicity of the import batch\<close>















section \<open>The pairing pass of the ledger\<close>



lemma sort_key_two:
  "sort_key f [a, b] = (if f a \<le> f b then [a, b] else [b, a])"
  by simp












end
